(* ===== verification/Prelude.thy ===== *)
theory Prelude
  imports Complex_Main "HOL-Library.Word" "HOL-Library.Multiset"
    "HOL-Library.List_Lexorder" "HOL-Library.Char_ord"
begin

text \<open>
  Shared vocabulary of the development: the exceptions the program and the
  framework raise (one datatype, so that every raise of the source is an
  \<open>Inl\<close> of a result), Python's checked and negative list indexing, Python's
  \<open>assert\<close> (which \<open>python -O\<close> removes), and the string operations the
  dataset code applies to file paths (\<open>str.split\<close> with an explicit separator,
  \<open>sep.join\<close>, \<open>str.lower\<close>) with their round-trip and decomposition lemmas.
  Strings are \<open>char list\<close>; characters are bytes, so paths are their UTF-8
  encodings and comparisons are byte-wise (for UTF-8 the same order as
  Python's code-point order).
\<close>

named_theorems model_simps "evaluation rules of the model's helper operations"

datatype error =
    AssertionError
  | IndexError
  | NotFoundError string
  | TypeError string
  | InvalidArgumentError string
  | FailedPreconditionError string
  | ValueError string
  | OSError string

type_synonym 'a res = "error + 'a"

definition res_bind :: "'a res \<Rightarrow> ('a \<Rightarrow> 'b res) \<Rightarrow> 'b res" where
  "res_bind m f = (case m of Inl e \<Rightarrow> Inl e | Inr x \<Rightarrow> f x)"

text \<open>Python's \<open>assert c\<close>: raises only when assertions are enabled (\<open>__debug__\<close>).\<close>

definition py_assert :: "bool \<Rightarrow> bool \<Rightarrow> unit res" where
  "py_assert debug c = (if debug \<and> \<not> c then Inl AssertionError else Inr ())"

text \<open>Python's \<open>xs[i]\<close> (also a tensor's \<open>t[i]\<close>): negative indices count from the end.\<close>

definition py_index :: "'a list \<Rightarrow> int \<Rightarrow> 'a res" where
  "py_index xs i =
     (let k = (if 0 \<le> i then i else int (length xs) + i)
      in if k < 0 \<or> int (length xs) \<le> k then Inl IndexError else Inr (xs ! nat k))"

text \<open>\<open>s.split(c)\<close> with an explicit one-character separator: empty fields are kept.\<close>

fun split_on :: "char \<Rightarrow> string \<Rightarrow> string list" where
  "split_on c [] = [[]]"
| "split_on c (x # xs) =
     (if x = c then [] # split_on c xs
      else (case split_on c xs of w # ws \<Rightarrow> (x # w) # ws | [] \<Rightarrow> [[x]]))"

text \<open>\<open>c.join(ws)\<close>.\<close>

fun join_on :: "char \<Rightarrow> string list \<Rightarrow> string" where
  "join_on c [] = []"
| "join_on c [w] = w"
| "join_on c (w # v # ws) = w @ c # join_on c (v # ws)"

text \<open>\<open>str.lower()\<close> on the ASCII range.\<close>

definition lower_char :: "char \<Rightarrow> char" where
  "lower_char x =
     (if CHR ''A'' \<le> x \<and> x \<le> CHR ''Z'' then char_of (of_char x + (32::nat)) else x)"

definition ascii_lower :: "string \<Rightarrow> string" where
  "ascii_lower s = map lower_char s"

subsection \<open>Results\<close>

lemma res_bind_simps [simp, model_simps]:
  "res_bind (Inl e) f = Inl e"
  "res_bind (Inr x) f = f x"
  by (simp_all add: res_bind_def)

lemma res_bind_eq_Inr [simp]:
  "res_bind m f = Inr y \<longleftrightarrow> (\<exists>x. m = Inr x \<and> f x = Inr y)"
  by (cases m) auto

lemma res_bind_eq_Inl:
  "res_bind m f = Inl e \<longleftrightarrow> m = Inl e \<or> (\<exists>x. m = Inr x \<and> f x = Inl e)"
  by (cases m) auto

lemma map_sum_eq_Inr [simp]: "map_sum f g x = Inr y \<longleftrightarrow> (\<exists>z. x = Inr z \<and> y = g z)"
  by (cases x) auto

lemma map_sum_eq_Inl [simp]: "map_sum f g x = Inl e \<longleftrightarrow> (\<exists>d. x = Inl d \<and> e = f d)"
  by (cases x) auto

lemma py_assert_simps [simp, model_simps]:
  "py_assert debug True = Inr ()"
  "py_assert False c = Inr ()"
  "py_assert True c = (if c then Inr () else Inl AssertionError)"
  by (simp_all add: py_assert_def)

subsection \<open>Indexing\<close>

lemma py_index_last [simp]: "xs \<noteq> [] \<Longrightarrow> py_index xs (-1) = Inr (last xs)"
proof -
  assume "xs \<noteq> []"
  moreover have "nat (int (length xs) - 1) = length xs - 1" by simp
  ultimately show ?thesis by (simp add: py_index_def last_conv_nth)
qed

lemma py_index_second_last [simp]: "py_index (xs @ [a, b]) (-2) = Inr a"
proof -
  have "nat (int (length xs + 2) - 2) = length xs" by simp
  then show ?thesis by (simp add: py_index_def nth_append)
qed

lemma py_index_short: "length xs < 2 \<Longrightarrow> py_index xs (-2) = Inl IndexError"
  by (simp add: py_index_def)

subsection \<open>Splitting and joining\<close>

lemma split_on_not_Nil [simp]: "split_on c s \<noteq> []"
  by (induction s) (auto split: list.split)

lemma split_on_Cons_other:
  "x \<noteq> c \<Longrightarrow> split_on c (x # xs) = (x # hd (split_on c xs)) # tl (split_on c xs)"
  by (cases "split_on c xs") auto

lemma split_on_no_sep [simp]: "c \<notin> set s \<Longrightarrow> split_on c s = [s]"
  by (induction s) auto

lemma split_on_append_sep:
  "split_on c (u @ c # v) = split_on c u @ split_on c v"
proof (induction u)
  case Nil
  show ?case by simp
next
  case (Cons x u)
  show ?case
  proof (cases "x = c")
    case True
    with Cons.IH show ?thesis by simp
  next
    case False
    obtain w ws where u: "split_on c u = w # ws"
      by (cases "split_on c u") auto
    with Cons.IH False show ?thesis by simp
  qed
qed

lemma split_on_components: "w \<in> set (split_on c s) \<Longrightarrow> c \<notin> set w"
proof (induction s arbitrary: w)
  case Nil
  then show ?case by simp
next
  case (Cons x s)
  then show ?case
    by (cases "split_on c s") (auto split: if_splits)
qed

lemma join_split_on [simp]: "join_on c (split_on c s) = s"
proof (induction s)
  case Nil
  show ?case by simp
next
  case (Cons x s)
  obtain w ws where s: "split_on c s = w # ws"
    by (cases "split_on c s") auto
  show ?case
  proof (cases "x = c")
    case True
    with Cons.IH s show ?thesis by simp
  next
    case False
    with Cons.IH s show ?thesis by (cases ws) simp_all
  qed
qed

lemma split_join_on:
  "ws \<noteq> [] \<Longrightarrow> \<forall>w \<in> set ws. c \<notin> set w \<Longrightarrow> split_on c (join_on c ws) = ws"
proof (induction c ws rule: join_on.induct)
  case (3 c w v ws)
  then show ?case by (simp add: split_on_append_sep)
qed simp_all

subsection \<open>Lower case\<close>

lemma ascii_lower_id: "\<forall>x \<in> set s. \<not> (CHR ''A'' \<le> x \<and> x \<le> CHR ''Z'') \<Longrightarrow> ascii_lower s = s"
  by (induction s) (auto simp: ascii_lower_def lower_char_def)

end
