(* ===== verification/Backbone.thy ===== *)
theory Backbone
  imports Prelude
begin

text \<open>
  The backbone selector of \<open>src/models/backbone.py\<close>. Class \<open>Backbone\<close> is the
  record \<open>backbone\<close>; its constructor \<open>__init__\<close> is \<open>backbone_init\<close>, which takes
  Python's \<open>__debug__\<close> flag because its three \<open>assert\<close>s vanish under
  \<open>python -O\<close>; \<open>import_backbone\<close> dispatches on the lower-cased name to one of
  the three Keras application constructors, and the \<open>backbone\<close> property is
  \<open>backbone_get\<close>. The Keras constructors themselves (framework code) are
  modelled by their input validation (\<open>obtain_input_shape\<close> of
  \<open>keras.applications\<close>) and by the fields of the model they return; the
  network weights are not modelled. \<open>backbone_spec\<close> is the contract of
  spec section 4.1, and \<open>backbone_init_refines_spec\<close> shows that with
  assertions enabled the class implements it exactly.
\<close>

subsection \<open>The framework's application constructors\<close>

datatype arch = DenseNet121 | MobileNetV3Small | EfficientNetB0

text \<open>A Python shape tuple: any length, each entry an int or \<open>None\<close>.\<close>

type_synonym shape = "int option list"

record keras_model =
  model_arch :: arch
  include_top :: bool
  model_weights :: "string option"
  model_input_shape :: shape
  trainable :: bool

text \<open>A given dimension below the minimum; \<open>None\<close> (not given) never is.\<close>

definition dim_below :: "int option \<Rightarrow> int \<Rightarrow> bool" where
  "dim_below d m = (case d of None \<Rightarrow> False | Some r \<Rightarrow> r < m)"

text \<open>
  \<open>obtain_input_shape(input_shape, default_size=224, min_size=32,
  data_format='channels_last', require_flatten=False, weights)\<close> as DenseNet121
  and EfficientNetB0 call it: an empty tuple is falsy and is replaced by the
  default \<open>(None, None, 3)\<close>; otherwise three entries, three channels for the
  ImageNet weights, and rows and columns that are not \<open>None\<close> at least 32.
\<close>

definition obtain_input_shape :: "string option \<Rightarrow> shape \<Rightarrow> shape res" where
  "obtain_input_shape w s =
     (if s = [] then Inr [None, None, Some 3]
      else if length s \<noteq> 3
        then Inl (ValueError ''input_shape must be a tuple of three integers'')
      else if s ! 2 \<noteq> Some 3 \<and> w = Some ''imagenet''
        then Inl (ValueError ''The input must have 3 channels'')
      else if dim_below (s ! 0) 32 \<or> dim_below (s ! 1) 32
        then Inl (ValueError ''Input size must be at least 32x32'')
      else Inr s)"

text \<open>
  MobileNetV3Small reads \<open>rows = input_shape[0]\<close> and \<open>cols = input_shape[1]\<close>
  (an \<open>IndexError\<close> for a shorter tuple), checks
  \<open>if rows and cols and (rows < 32 or cols < 32)\<close>, only when both are truthy
  (given and non-zero), and leaves other ranks to its first convolution, which
  expects a 4-dimensional input.
\<close>

definition mobilenet_v3_input_shape :: "shape \<Rightarrow> shape res" where
  "mobilenet_v3_input_shape s =
     (if length s < 2 then Inl IndexError
      else if s ! 0 \<notin> {None, Some 0} \<and> s ! 1 \<notin> {None, Some 0} \<and>
              (dim_below (s ! 0) 32 \<or> dim_below (s ! 1) 32)
        then Inl (ValueError ''Input size must be at least 32x32'')
      else if length s \<noteq> 3 then Inl (ValueError ''Input 0 of layer conv is incompatible with the layer: expected ndim=4'')
      else Inr s)"

definition app_input_shape :: "arch \<Rightarrow> string option \<Rightarrow> shape \<Rightarrow> shape res" where
  "app_input_shape a w s =
     (case a of MobileNetV3Small \<Rightarrow> mobilenet_v3_input_shape s
      | _ \<Rightarrow> obtain_input_shape w s)"

text \<open>
  \<open>DenseNet121(include_top=..., weights=..., input_shape=...)\<close> and its siblings:
  the weights check, the input-shape validation, and the first convolution,
  which needs a defined channel dimension, and the loading of the ImageNet
  weights, whose first convolution has three input channels (DenseNet121 and
  EfficientNetB0 reject other channel counts earlier). Weights given as a path to a file
  (reachable only under \<open>python -O\<close>) are not modelled: every other string is
  rejected.
\<close>

definition keras_application :: "arch \<Rightarrow> bool \<Rightarrow> string option \<Rightarrow> shape \<Rightarrow> keras_model res" where
  "keras_application a inc_top w s =
     (if w \<noteq> None \<and> w \<noteq> Some ''imagenet''
      then Inl (ValueError ''The weights argument should be None or imagenet'')
      else res_bind (app_input_shape a w s) (\<lambda>s'.
        if s' ! 2 = None then Inl (ValueError ''The channel dimension of the inputs should be defined'')
        else if a = MobileNetV3Small \<and> w = Some ''imagenet'' \<and> s' ! 2 \<noteq> Some 3
          then Inl (ValueError ''Shape mismatch loading the ImageNet weights of the first convolution'')
        else Inr \<lparr>model_arch = a, include_top = inc_top, model_weights = w,
             model_input_shape = s', trainable = True\<rparr>))"

subsection \<open>Class Backbone\<close>

record backbone =
  backbone_name :: string
  input_shape :: shape
  backbone_weights :: "string option"
  backbone_trainable :: bool
  backbone_model :: "keras_model option"

definition valid_backbone_names :: "string list" where
  "valid_backbone_names = [''densenet121'', ''mobilenetv3'', ''effnetb0'']"

definition import_backbone :: "backbone \<Rightarrow> keras_model option res" where
  "import_backbone b =
     (let n = ascii_lower (backbone_name b); w = backbone_weights b; s = input_shape b in
      if n = ''densenet121'' then map_sum id Some (keras_application DenseNet121 False w s)
      else if n = ''mobilenetv3'' then map_sum id Some (keras_application MobileNetV3Small False w s)
      else if n = ''effnetb0'' then map_sum id Some (keras_application EfficientNetB0 False w s)
      else Inr None)"

definition backbone_init ::
  "bool \<Rightarrow> string \<Rightarrow> shape \<Rightarrow> string option \<Rightarrow> bool \<Rightarrow> backbone res" where
  "backbone_init debug name s w tr =
     res_bind (py_assert debug (name \<in> set valid_backbone_names)) (\<lambda>_.
     res_bind (py_assert debug (length s = 3)) (\<lambda>_.
     res_bind (py_assert debug (w = None \<or> w = Some ''imagenet'')) (\<lambda>_.
       let b = \<lparr>backbone_name = name, input_shape = s, backbone_weights = w,
                backbone_trainable = (if w \<noteq> None then tr else True),
                backbone_model = None\<rparr>
       in res_bind (import_backbone b) (\<lambda>m.
            Inr (b\<lparr>backbone_model :=
                   map_option (\<lambda>k. k\<lparr>trainable := backbone_trainable b\<rparr>) m\<rparr>)))))"

definition backbone_get :: "backbone \<Rightarrow> keras_model option" where
  "backbone_get b = backbone_model b"

subsection \<open>The contract of spec section 4.1\<close>

definition arch_of_name :: "string \<Rightarrow> arch option" where
  "arch_of_name n =
     (if n = ''densenet121'' then Some DenseNet121
      else if n = ''mobilenetv3'' then Some MobileNetV3Small
      else if n = ''effnetb0'' then Some EfficientNetB0 else None)"

text \<open>
  A known name, a three-entry shape and weights \<open>None\<close> or \<open>imagenet\<close> build the
  headless architecture of that name, with trainability forced when there are
  no pre-trained weights; anything else is a configuration error.
\<close>

definition backbone_spec :: "string \<Rightarrow> shape \<Rightarrow> string option \<Rightarrow> bool \<Rightarrow> backbone res" where
  "backbone_spec name s w tr =
     (case arch_of_name name of
        None \<Rightarrow> Inl AssertionError
      | Some a \<Rightarrow>
          if length s \<noteq> 3 \<or> \<not> (w = None \<or> w = Some ''imagenet'') then Inl AssertionError
          else res_bind (keras_application a False w s) (\<lambda>m.
                 Inr \<lparr>backbone_name = name, input_shape = s, backbone_weights = w,
                      backbone_trainable = (w = None \<or> tr),
                      backbone_model = Some (m\<lparr>trainable := (w = None \<or> tr)\<rparr>)\<rparr>))"

text \<open>
  The module's \<open>__main__\<close> block: \<open>Backbone('effnetb0', input_shape=(224, 224, 3),
  weights='imagenet', trainable=False)\<close> and its \<open>backbone\<close> property.
\<close>

definition backbone_main :: "bool \<Rightarrow> keras_model option res" where
  "backbone_main debug =
     res_bind (backbone_init debug ''effnetb0'' [Some 224, Some 224, Some 3] (Some ''imagenet'') False)
       (\<lambda>b. Inr (backbone_get b))"

text \<open>What every constructed backbone satisfies, with or without assertions.\<close>

definition backbone_wf :: "backbone \<Rightarrow> bool" where
  "backbone_wf b \<longleftrightarrow>
     (backbone_weights b = None \<longrightarrow> backbone_trainable b) \<and>
     (case backbone_model b of
        None \<Rightarrow> True
      | Some m \<Rightarrow> trainable m = backbone_trainable b \<and> \<not> include_top m \<and>
                  model_weights m = backbone_weights b)"

subsection \<open>Helper lemmas\<close>

lemma ascii_lower_valid: "n \<in> set valid_backbone_names \<Longrightarrow> ascii_lower n = n"
  by (auto simp: valid_backbone_names_def ascii_lower_def lower_char_def)

lemma arch_of_name_valid: "arch_of_name n \<noteq> None \<longleftrightarrow> n \<in> set valid_backbone_names"
  by (simp add: arch_of_name_def valid_backbone_names_def)

lemma import_backbone_arch:
  "arch_of_name (backbone_name b) = Some a \<Longrightarrow>
   import_backbone b = map_sum id Some (keras_application a False (backbone_weights b) (input_shape b))"
  by (auto simp: import_backbone_def arch_of_name_def ascii_lower_def lower_char_def Let_def split: if_splits)

lemma import_backbone_unknown:
  "ascii_lower (backbone_name b) \<notin> set valid_backbone_names \<Longrightarrow> import_backbone b = Inr None"
  by (simp add: import_backbone_def valid_backbone_names_def Let_def)

lemma app_input_shape_keeps: "app_input_shape a w s = Inr s' \<Longrightarrow> s \<noteq> [] \<Longrightarrow> s' = s"
  by (auto simp: app_input_shape_def obtain_input_shape_def mobilenet_v3_input_shape_def
           split: arch.splits if_splits)

lemma keras_application_Inr:
  "keras_application a t w s = Inr k \<Longrightarrow>
   model_arch k = a \<and> include_top k = t \<and> model_weights k = w \<and>
   (s \<noteq> [] \<longrightarrow> model_input_shape k = s)"
  by (auto simp: keras_application_def res_bind_eq_Inl dest: app_input_shape_keeps
           split: if_splits sum.splits)

lemma import_backbone_Some:
  assumes "import_backbone b = Inr (Some k)"
  shows "arch_of_name (ascii_lower (backbone_name b)) = Some (model_arch k) \<and> \<not> include_top k \<and>
         model_weights k = backbone_weights b \<and>
         (input_shape b \<noteq> [] \<longrightarrow> model_input_shape k = input_shape b)"
  using assms
  by (auto simp: import_backbone_def arch_of_name_def Let_def
           dest!: keras_application_Inr split: if_splits sum.splits)

lemma backbone_init_Inr:
  assumes "backbone_init debug name s w tr = Inr b"
  obtains m where
    "import_backbone \<lparr>backbone_name = name, input_shape = s, backbone_weights = w,
        backbone_trainable = (w = None \<or> tr), backbone_model = None\<rparr> = Inr m"
    "b = \<lparr>backbone_name = name, input_shape = s, backbone_weights = w,
          backbone_trainable = (w = None \<or> tr),
          backbone_model = map_option (\<lambda>k. k\<lparr>trainable := (w = None \<or> tr)\<rparr>) m\<rparr>"
  using assms by (cases w) (auto simp: backbone_init_def intro: that)

subsection \<open>Refinement of the contract\<close>

text \<open>C4. With assertions enabled, the constructor implements the contract of spec
  section 4.1 exactly, on every input: unknown names, shapes without three entries
  and weights other than None or imagenet raise, and every accepted configuration
  yields a backbone whose model is present (the silent None of the design note is
  unreachable).\<close>

lemma backbone_init_refines_spec:
  "backbone_init True name s w tr = backbone_spec name s w tr"
proof (cases "arch_of_name name")
  case None
  then have "name \<notin> set valid_backbone_names" using arch_of_name_valid by blast
  with None show ?thesis by (simp add: backbone_init_def backbone_spec_def)
next
  case (Some a)
  then have v: "name \<in> set valid_backbone_names" using arch_of_name_valid by blast
  show ?thesis
  proof (cases "length s = 3 \<and> (w = None \<or> w = Some ''imagenet'')")
    case False
    with Some v show ?thesis by (auto simp: backbone_init_def backbone_spec_def)
  next
    case True
    with Some v show ?thesis
      by (auto simp: backbone_init_def backbone_spec_def import_backbone_arch res_bind_def
               split: sum.splits)
  qed
qed

subsection \<open>Properties of constructed backbones\<close>

text \<open>C18. Every backbone the constructor returns, with or without assertions, is
  well formed: no pre-trained weights implies trainable, and the wrapped model is
  headless, carries the backbone's weights and has the backbone's trainable flag.\<close>

lemma backbone_init_wf: "backbone_init debug name s w tr = Inr b \<Longrightarrow> backbone_wf b"
  by (erule backbone_init_Inr) (auto simp: backbone_wf_def dest: import_backbone_Some split: option.splits)

text \<open>C27. The trainable flag: the backbone and its model are trainable exactly
  when there are no pre-trained weights or trainability was requested; without
  weights the requested flag is ignored.\<close>

lemma backbone_trainable_flag:
  "backbone_init debug name s w tr = Inr b \<Longrightarrow>
   backbone_trainable b = (w = None \<or> tr) \<and>
   pred_option (\<lambda>m. trainable m = (w = None \<or> tr)) (backbone_get b)"
  by (erule backbone_init_Inr) (auto simp: backbone_get_def option.pred_set)

text \<open>C19. A valid name with a three-entry shape that the constructor accepts yields
  a model of the named architecture whose input shape is the requested one.\<close>

lemma backbone_valid_builds:
  assumes "name \<in> set valid_backbone_names" and "length s = 3"
    and "backbone_init debug name s w tr = Inr b"
  shows "\<exists>m. backbone_get b = Some m \<and> model_input_shape m = s \<and>
             arch_of_name name = Some (model_arch m)"
proof -
  from assms(1) obtain a where a: "arch_of_name name = Some a"
    using arch_of_name_valid by blast
  from assms(3) show ?thesis
  proof (rule backbone_init_Inr)
    fix m
    assume imp: "import_backbone \<lparr>backbone_name = name, input_shape = s, backbone_weights = w,
        backbone_trainable = (w = None \<or> tr), backbone_model = None\<rparr> = Inr m"
      and b: "b = \<lparr>backbone_name = name, input_shape = s, backbone_weights = w,
          backbone_trainable = (w = None \<or> tr),
          backbone_model = map_option (\<lambda>k. k\<lparr>trainable := (w = None \<or> tr)\<rparr>) m\<rparr>"
    from imp a obtain k where "m = Some k" and "keras_application a False w s = Inr k"
      by (auto simp: import_backbone_arch)
    with assms(1,2) a imp b show ?thesis
      by (auto simp: backbone_get_def ascii_lower_valid dest!: import_backbone_Some)
  qed
qed

text \<open>C20. With assertions enabled, an invalid name, shape or weights argument is an
  AssertionError and nothing is constructed.\<close>

lemma backbone_rejects_bad_config:
  "\<not> (name \<in> set valid_backbone_names \<and> length s = 3 \<and> (w = None \<or> w = Some ''imagenet'')) \<Longrightarrow>
   backbone_init True name s w tr = Inl AssertionError"
  by (auto simp: backbone_init_def)

text \<open>C37. Under python -O the assertions vanish: an unknown backbone name is then
  accepted and yields a backbone whose model is None.\<close>

lemma backbone_unknown_name_optimized:
  "ascii_lower name \<notin> set valid_backbone_names \<Longrightarrow>
   \<exists>b. backbone_init False name s w tr = Inr b \<and> backbone_get b = None"
  by (simp add: backbone_init_def import_backbone_unknown backbone_get_def)

text \<open>C21. Keras' own input check: a configuration the asserts accept (and spec
  section 3 calls valid) still raises \<open>ValueError\<close> when a given row or column
  size is below 32, whatever the channels; with three channels and positive
  sizes the constructor succeeds exactly when both sizes are at least 32.\<close>

theorem backbone_small_input_rejected:
  assumes "name \<in> set valid_backbone_names" "w = None \<or> w = Some ''imagenet''" "0 < h" "0 < wd"
  shows "(h < 32 \<or> wd < 32 \<longrightarrow>
            (\<exists>msg. backbone_init debug name [Some h, Some wd, c] w tr = Inl (ValueError msg))) \<and>
         ((\<exists>b. backbone_init debug name [Some h, Some wd, Some 3] w tr = Inr b) \<longleftrightarrow> 32 \<le> h \<and> 32 \<le> wd)"
  using assms
  by (auto simp: backbone_init_def import_backbone_def keras_application_def app_input_shape_def
      obtain_input_shape_def mobilenet_v3_input_shape_def dim_below_def valid_backbone_names_def
      ascii_lower_def lower_char_def Let_def)

subsection \<open>Witnesses\<close>

lemma backbone_init_effnetb0_example:
  "backbone_init True ''effnetb0'' [Some 224, Some 224, Some 3] None False =
   Inr \<lparr>backbone_name = ''effnetb0'', input_shape = [Some 224, Some 224, Some 3],
        backbone_weights = None, backbone_trainable = True,
        backbone_model = Some \<lparr>model_arch = EfficientNetB0, include_top = False,
          model_weights = None, model_input_shape = [Some 224, Some 224, Some 3],
          trainable = True\<rparr>\<rparr>"
  by (simp add: backbone_init_def import_backbone_def keras_application_def app_input_shape_def
      obtain_input_shape_def dim_below_def valid_backbone_names_def ascii_lower_def lower_char_def Let_def)

lemma backbone_init_densenet_imagenet_example:
  "backbone_init True ''densenet121'' [Some 224, Some 224, Some 3] (Some ''imagenet'') False =
   Inr \<lparr>backbone_name = ''densenet121'', input_shape = [Some 224, Some 224, Some 3],
        backbone_weights = Some ''imagenet'', backbone_trainable = False,
        backbone_model = Some \<lparr>model_arch = DenseNet121, include_top = False,
          model_weights = Some ''imagenet'', model_input_shape = [Some 224, Some 224, Some 3],
          trainable = False\<rparr>\<rparr>"
  by (simp add: backbone_init_def import_backbone_def keras_application_def app_input_shape_def
      obtain_input_shape_def dim_below_def valid_backbone_names_def ascii_lower_def lower_char_def Let_def)

theorem backbone_init_wf_witness:
  "\<exists>b. backbone_init True ''effnetb0'' [Some 224, Some 224, Some 3] None False = Inr b \<and> backbone_wf b"
  using backbone_init_wf [OF backbone_init_effnetb0_example] backbone_init_effnetb0_example by blast

theorem backbone_trainable_flag_witness:
  "(\<exists>b. backbone_init True ''effnetb0'' [Some 224, Some 224, Some 3] None False = Inr b \<and>
        backbone_trainable b \<and> pred_option trainable (backbone_get b)) \<and>
   (\<exists>b. backbone_init True ''densenet121'' [Some 224, Some 224, Some 3] (Some ''imagenet'') False = Inr b \<and>
        \<not> backbone_trainable b \<and> pred_option (\<lambda>m. \<not> trainable m) (backbone_get b))"
  using backbone_trainable_flag [OF backbone_init_effnetb0_example]
    backbone_trainable_flag [OF backbone_init_densenet_imagenet_example]
    backbone_init_effnetb0_example backbone_init_densenet_imagenet_example by auto

theorem backbone_valid_builds_witness:
  "\<exists>m. backbone_get (projr (backbone_init True ''effnetb0'' [Some 224, Some 224, Some 3] None False)) = Some m \<and>
       model_input_shape m = [Some 224, Some 224, Some 3] \<and> arch_of_name ''effnetb0'' = Some (model_arch m)"
proof -
  have v: "''effnetb0'' \<in> set valid_backbone_names" by (simp add: valid_backbone_names_def)
  have l: "length [Some (224::int), Some 224, Some 3] = 3" by simp
  show ?thesis
    using backbone_valid_builds [OF v l backbone_init_effnetb0_example] backbone_init_effnetb0_example
    by simp
qed

theorem backbone_rejects_bad_config_witness:
  "backbone_init True ''resnet50'' [Some 224, Some 224, Some 3] None False = Inl AssertionError"
  by (rule backbone_rejects_bad_config) (simp add: valid_backbone_names_def)

theorem backbone_unknown_name_optimized_witness:
  "\<exists>b. backbone_init False ''resnet50'' [Some 224, Some 224, Some 3] (Some ''imagenet'') False = Inr b \<and>
       backbone_get b = None"
  by (rule backbone_unknown_name_optimized) (simp add: valid_backbone_names_def ascii_lower_def lower_char_def)

theorem backbone_small_input_rejected_witness:
  "(\<exists>msg. backbone_init True ''effnetb0'' [Some 16, Some 224, Some 3] (Some ''imagenet'') False =
           Inl (ValueError msg)) \<and>
   \<not> (\<exists>b. backbone_init True ''effnetb0'' [Some 16, Some 224, Some 3] (Some ''imagenet'') False = Inr b)"
  using backbone_small_input_rejected [of "''effnetb0''" "Some ''imagenet''" 16 224 True "Some 3" False]
  by (simp add: valid_backbone_names_def)

end
