(* ===== verification/Gfile.thy ===== *)
theory Gfile
  imports Prelude
begin

text \<open>
  The file-system services the dataset code calls: \<open>os.path.join\<close>,
  \<open>tf.io.gfile.listdir\<close>, \<open>tf.io.gfile.glob\<close> and \<open>tf.io.read_file\<close>.
  A file system is the list of its entries, each a full path (relative to the
  working directory, components separated by \<open>/\<close>) with a file's bytes or a
  directory mark; the list order is the enumeration order of the underlying
  file system, which TensorFlow passes on. \<open>glob\<close> matches every entry against
  the pattern with POSIX \<open>fnmatch(pattern, path, FNM_PATHNAME)\<close>, which is what
  TensorFlow's POSIX file system uses: a \<open>*\<close> or \<open>?\<close> never matches a
  \<open>/\<close>, so \<open>**\<close> is two stars within one path component and not a recursive
  wildcard. Bracket expressions and backslash escapes of \<open>fnmatch\<close> are not
  modelled; the theorems assume patterns whose fixed parts contain none of
  \<open>* ? [ \\\<close>.
\<close>

datatype node = File "8 word list" | Dir

record fs =
  fs_entries :: "(string \<times> node) list"

definition fs_lookup :: "fs \<Rightarrow> string \<Rightarrow> node option" where
  "fs_lookup f p = map_of (fs_entries f) p"

definition basename :: "string \<Rightarrow> string" where
  "basename q = rev (takeWhile (\<lambda>c. c \<noteq> CHR ''/'') (rev q))"

definition dirname :: "string \<Rightarrow> string" where
  "dirname q = rev (drop 1 (dropWhile (\<lambda>c. c \<noteq> CHR ''/'') (rev q)))"

text \<open>\<open>posixpath.join(a, b)\<close>.\<close>

definition path_join :: "string \<Rightarrow> string \<Rightarrow> string" where
  "path_join a b =
     (if take 1 b = ''/'' then b
      else if a = [] \<or> last a = CHR ''/'' then a @ b
      else a @ ''/'' @ b)"

text \<open>\<open>tf.io.gfile.listdir(p)\<close>: the names of the entries directly below a directory.\<close>

definition gfile_listdir :: "fs \<Rightarrow> string \<Rightarrow> string list res" where
  "gfile_listdir f p =
     (if fs_lookup f p = Some Dir
      then Inr (map basename (filter (\<lambda>q. dirname q = p) (map fst (fs_entries f))))
      else Inl (NotFoundError p))"

text \<open>\<open>tf.io.read_file(p)\<close>.\<close>

definition read_file :: "fs \<Rightarrow> string \<Rightarrow> 8 word list res" where
  "read_file f p =
     (case fs_lookup f p of
        Some (File bs) \<Rightarrow> Inr bs
      | Some Dir \<Rightarrow> Inl (FailedPreconditionError p)
      | None \<Rightarrow> Inl (NotFoundError p))"

subsection \<open>Glob patterns\<close>

datatype pat = PLit char | PAny | PStar

definition compile_glob :: "string \<Rightarrow> pat list" where
  "compile_glob s =
     map (\<lambda>c. if c = CHR ''*'' then PStar else if c = CHR ''?'' then PAny else PLit c) s"

fun fnmatch :: "pat list \<Rightarrow> string \<Rightarrow> bool" where
  "fnmatch [] s = (s = [])"
| "fnmatch (PLit c # ps) [] = False"
| "fnmatch (PLit c # ps) (x # xs) = (x = c \<and> fnmatch ps xs)"
| "fnmatch (PAny # ps) [] = False"
| "fnmatch (PAny # ps) (x # xs) = (x \<noteq> CHR ''/'' \<and> fnmatch ps xs)"
| "fnmatch (PStar # ps) [] = fnmatch ps []"
| "fnmatch (PStar # ps) (x # xs) =
     (fnmatch ps (x # xs) \<or> (x \<noteq> CHR ''/'' \<and> fnmatch (PStar # ps) xs))"

text \<open>\<open>tf.io.gfile.glob(pattern)\<close>: the matching entries, files and directories alike.\<close>

definition gfile_glob :: "fs \<Rightarrow> string \<Rightarrow> string list" where
  "gfile_glob f pattern = filter (fnmatch (compile_glob pattern)) (map fst (fs_entries f))"

definition glob_literal :: "string \<Rightarrow> bool" where
  "glob_literal s \<longleftrightarrow> (\<forall>c \<in> set s. c \<notin> {CHR ''*'', CHR ''?'', CHR ''['', CHR 0x5C})"

text \<open>
  A well-formed file system: paths are distinct and the parent of every nested
  entry is a directory entry.
\<close>

definition fs_wf :: "fs \<Rightarrow> bool" where
  "fs_wf f \<longleftrightarrow> distinct (map fst (fs_entries f)) \<and>
     list_all (\<lambda>q. CHR ''/'' \<in> set q \<longrightarrow> fs_lookup f (dirname q) = Some Dir)
       (map fst (fs_entries f))"

text \<open>
  A path in the form \<open>posixpath.normpath\<close> gives a relative path: no empty
  component (so no doubled, leading or trailing slash), no \<open>.\<close>, and \<open>..\<close>
  only in a leading run. The file system resolves \<open>data/Test/\<close>,
  \<open>./data/Test\<close> and \<open>data/Test\<close> to one directory; the model compares
  path strings, which agrees with the file system on canonical paths.
\<close>

definition canonical_path :: "string \<Rightarrow> bool" where
  "canonical_path p \<longleftrightarrow>
     (let cs = split_on CHR ''/'' p
      in list_all (\<lambda>c. c \<noteq> [] \<and> c \<noteq> ''.'') cs \<and>
         list_all (\<lambda>c. c \<noteq> ''..'') (dropWhile (\<lambda>c. c = ''..'') cs))"

definition fs_canonical :: "fs \<Rightarrow> bool" where
  "fs_canonical f \<longleftrightarrow> list_all canonical_path (map fst (fs_entries f))"

subsection \<open>Paths\<close>

lemma basename_dirname_split:
  "CHR ''/'' \<notin> set v \<Longrightarrow> dirname (u @ CHR ''/'' # v) = u \<and> basename (u @ CHR ''/'' # v) = v"
proof -
  assume v: "CHR ''/'' \<notin> set v"
  have t: "takeWhile (\<lambda>c. c \<noteq> CHR ''/'') (rev v @ CHR ''/'' # rev u) = rev v"
    using v by (subst takeWhile_append2) auto
  have d: "dropWhile (\<lambda>c. c \<noteq> CHR ''/'') (rev v @ CHR ''/'' # rev u) = CHR ''/'' # rev u"
    using v by (subst dropWhile_append2) auto
  show ?thesis by (simp add: dirname_def basename_def t d)
qed

lemma dirname_no_slash: "CHR ''/'' \<notin> set q \<Longrightarrow> dirname q = [] \<and> basename q = q"
proof -
  assume q: "CHR ''/'' \<notin> set q"
  then have d: "dropWhile (\<lambda>c. c \<noteq> CHR ''/'') (rev q) = []"
    by (auto simp: dropWhile_eq_Nil_conv)
  from q have t: "takeWhile (\<lambda>c. c \<noteq> CHR ''/'') (rev q) = rev q"
    by (auto simp: takeWhile_eq_all_conv)
  show ?thesis unfolding dirname_def basename_def by (simp only: d t) simp
qed

lemma dirname_basename: "CHR ''/'' \<in> set q \<Longrightarrow> q = dirname q @ CHR ''/'' # basename q"
proof -
  assume "CHR ''/'' \<in> set q"
  then obtain u v where "q = u @ CHR ''/'' # v" and "CHR ''/'' \<notin> set v"
    using split_list_last by metis
  then show ?thesis using basename_dirname_split by simp
qed

lemma basename_no_slash: "CHR ''/'' \<notin> set (basename q)"
  by (auto simp: basename_def dest: set_takeWhileD)

lemma fnmatch_lits: "fnmatch (map PLit u @ ps) s \<longleftrightarrow> (\<exists>r. s = u @ r \<and> fnmatch ps r)"
proof (induction u arbitrary: s)
  case Nil
  then show ?case by simp
next
  case (Cons c u)
  then show ?case by (cases s) auto
qed

lemma fnmatch_lit: "fnmatch (PLit c # ps) s \<longleftrightarrow> (\<exists>r. s = c # r \<and> fnmatch ps r)"
  by (cases s) auto

lemma fnmatch_star:
  "fnmatch (PStar # ps) s \<longleftrightarrow> (\<exists>a b. s = a @ b \<and> CHR ''/'' \<notin> set a \<and> fnmatch ps b)"
proof (induction s)
  case Nil
  then show ?case by simp
next
  case (Cons x xs)
  show ?case
  proof
    assume m: "fnmatch (PStar # ps) (x # xs)"
    show "\<exists>a b. x # xs = a @ b \<and> CHR ''/'' \<notin> set a \<and> fnmatch ps b"
    proof (cases "fnmatch ps (x # xs)")
      assume t: "fnmatch ps (x # xs)"
      show ?thesis by (rule exI [of _ "[]"]) (simp add: t)
    next
      assume f: "\<not> fnmatch ps (x # xs)"
      from m f have x: "x \<noteq> CHR ''/''" by auto
      from m f have "fnmatch (PStar # ps) xs" by auto
      with Cons.IH obtain a b where "xs = a @ b" "CHR ''/'' \<notin> set a" "fnmatch ps b"
        by blast
      with x show ?thesis by (rule_tac exI [of _ "x # a"]) auto
    qed
  next
    assume "\<exists>a b. x # xs = a @ b \<and> CHR ''/'' \<notin> set a \<and> fnmatch ps b"
    then obtain a b where ab: "x # xs = a @ b" "CHR ''/'' \<notin> set a" "fnmatch ps b"
      by blast
    show "fnmatch (PStar # ps) (x # xs)"
    proof (cases a)
      case Nil
      with ab have "fnmatch ps (x # xs)" by simp
      then show ?thesis by simp
    next
      case (Cons y a')
      with ab have "xs = a' @ b" "x \<noteq> CHR ''/''" "CHR ''/'' \<notin> set a'" by auto
      with ab(3) Cons.IH have "fnmatch (PStar # ps) xs" by blast
      with \<open>x \<noteq> CHR ''/''\<close> show ?thesis by simp
    qed
  qed
qed

lemma fnmatch_star_intro:
  "CHR ''/'' \<notin> set a \<Longrightarrow> fnmatch ps b \<Longrightarrow> fnmatch (PStar # ps) (a @ b)"
  using fnmatch_star by blast

lemma compile_glob_literal: "glob_literal u \<Longrightarrow> compile_glob u = map PLit u"
  by (auto simp: compile_glob_def glob_literal_def)

lemma compile_glob_append: "compile_glob (u @ v) = compile_glob u @ compile_glob v"
  by (simp add: compile_glob_def)

lemma fnmatch_dataset_pattern:
  assumes "glob_literal dir" "dir \<noteq> []" "last dir \<noteq> CHR ''/''" "glob_literal ext"
  shows "fnmatch (compile_glob (path_join dir (''**/*.'' @ ext))) q \<longleftrightarrow>
         (\<exists>d n. q = dir @ ''/'' @ d @ ''/'' @ n @ ''.'' @ ext \<and>
                CHR ''/'' \<notin> set d \<and> CHR ''/'' \<notin> set n)"
proof -
  have pat: "compile_glob (path_join dir (''**/*.'' @ ext)) =
       map PLit dir @ [PLit CHR ''/'', PStar, PStar, PLit CHR ''/'', PStar, PLit CHR ''.''] @ map PLit ext"
    using assms by (simp add: path_join_def compile_glob_append compile_glob_literal)
      (simp add: compile_glob_def glob_literal_def)
  let ?sl = "CHR ''/''" and ?dot = "CHR ''.''"
  show ?thesis
  proof
    assume "fnmatch (compile_glob (path_join dir (''**/*.'' @ ext))) q"
    then have "fnmatch (map PLit dir @ [PLit ?sl, PStar, PStar, PLit ?sl, PStar, PLit ?dot] @
        map PLit ext) q" by (simp only: pat)
    then obtain a a' n r where
      q: "q = dir @ ?sl # a @ a' @ ?sl # n @ ?dot # r" and
      s: "?sl \<notin> set a" "?sl \<notin> set a'" "?sl \<notin> set n" and
      e: "fnmatch (map PLit ext) r"
      by (auto simp: fnmatch_lits fnmatch_lit fnmatch_star)
    from e have "r = ext" using fnmatch_lits [of ext "[]" r] by simp
    with q s show "\<exists>d n. q = dir @ ''/'' @ d @ ''/'' @ n @ ''.'' @ ext \<and>
        ?sl \<notin> set d \<and> ?sl \<notin> set n"
      by (intro exI [of _ "a @ a'"] exI [of _ n]) simp
  next
    assume "\<exists>d n. q = dir @ ''/'' @ d @ ''/'' @ n @ ''.'' @ ext \<and>
        ?sl \<notin> set d \<and> ?sl \<notin> set n"
    then obtain d n where q: "q = dir @ ?sl # d @ ?sl # n @ ?dot # ext"
      and d: "?sl \<notin> set d" and n: "?sl \<notin> set n"
      by auto
    have e: "fnmatch (map PLit ext) ext" using fnmatch_lits [of ext "[]" ext] by simp
    have 1: "fnmatch (PStar # PLit ?dot # map PLit ext) (n @ ?dot # ext)"
      using n e by (auto intro: fnmatch_star_intro)
    have 2: "fnmatch (PStar # PLit ?sl # PStar # PLit ?dot # map PLit ext) (d @ ?sl # n @ ?dot # ext)"
      using d 1 by (auto intro: fnmatch_star_intro)
    have 3: "fnmatch (PStar # PStar # PLit ?sl # PStar # PLit ?dot # map PLit ext)
        (d @ ?sl # n @ ?dot # ext)"
      using fnmatch_star_intro [of "[]", OF _ 2] by simp
    show "fnmatch (compile_glob (path_join dir (''**/*.'' @ ext))) q"
      unfolding pat q using 3 by (simp add: fnmatch_lits)
  qed
qed

lemma dirname_nonempty: "dirname q \<noteq> [] \<Longrightarrow> CHR ''/'' \<in> set q"
  using dirname_no_slash by blast

lemma fs_wf_parent:
  "fs_wf f \<Longrightarrow> q \<in> fst ` set (fs_entries f) \<Longrightarrow> CHR ''/'' \<in> set q \<Longrightarrow>
   (dirname q, Dir) \<in> set (fs_entries f)"
  by (auto simp: fs_wf_def list_all_iff fs_lookup_def dest: map_of_SomeD)

lemma fs_lookup_Dir: "(p, Dir) \<in> set (fs_entries f) \<Longrightarrow> fs_wf f \<Longrightarrow> fs_lookup f p = Some Dir"
  by (simp add: fs_wf_def fs_lookup_def)

lemma gfile_listdir_Dir:
  "fs_lookup f p = Some Dir \<Longrightarrow>
   gfile_listdir f p = Inr (map basename (filter (\<lambda>q. dirname q = p) (map fst (fs_entries f))))"
  by (simp add: gfile_listdir_def)

lemma gfile_listdir_distinct:
  assumes "fs_wf f" "p \<noteq> []" "gfile_listdir f p = Inr ns"
  shows "distinct ns"
proof -
  let ?qs = "filter (\<lambda>q. dirname q = p) (map fst (fs_entries f))"
  from assms(3) have ns: "ns = map basename ?qs"
    by (simp add: gfile_listdir_def split: if_splits)
  have "inj_on basename (set ?qs)"
  proof (rule inj_onI)
    fix q q' assume q: "q \<in> set ?qs" and q': "q' \<in> set ?qs" and eq: "basename q = basename q'"
    from q q' assms(2) have "dirname q = p" "dirname q' = p" by auto
    with assms(2) have "q = p @ CHR ''/'' # basename q" "q' = p @ CHR ''/'' # basename q'"
      using dirname_basename dirname_nonempty by metis+
    with eq show "q = q'" by simp
  qed
  moreover from assms(1) have "distinct ?qs" by (simp add: fs_wf_def)
  ultimately show ?thesis by (simp add: ns distinct_map)
qed

lemma gfile_glob_member:
  "q \<in> set (gfile_glob f pat) \<longleftrightarrow> q \<in> fst ` set (fs_entries f) \<and> fnmatch (compile_glob pat) q"
  by (auto simp: gfile_glob_def)

lemma glob_dataset_parent:
  assumes wf: "fs_wf f" and pat: "glob_literal dir" "dir \<noteq> []" "last dir \<noteq> CHR ''/''" "glob_literal ext"
    and ext: "CHR ''/'' \<notin> set ext"
    and q: "q \<in> set (gfile_glob f (path_join dir (''**/*.'' @ ext)))"
  shows "\<exists>d n ns. q = dir @ ''/'' @ d @ ''/'' @ n @ ''.'' @ ext \<and>
           CHR ''/'' \<notin> set d \<and> CHR ''/'' \<notin> set n \<and>
           gfile_listdir f dir = Inr ns \<and> d \<in> set ns"
proof -
  from q have qe: "q \<in> fst ` set (fs_entries f)"
    and m: "fnmatch (compile_glob (path_join dir (''**/*.'' @ ext))) q"
    by (simp_all add: gfile_glob_member)
  from m pat obtain d n where qdn: "q = dir @ ''/'' @ d @ ''/'' @ n @ ''.'' @ ext"
    and d: "CHR ''/'' \<notin> set d" and n: "CHR ''/'' \<notin> set n"
    using fnmatch_dataset_pattern by blast
  let ?pd = "dir @ CHR ''/'' # d"
  from qdn n ext have dq: "dirname q = ?pd"
    using basename_dirname_split [of "n @ ''.'' @ ext" ?pd] by simp
  from wf qe qdn have "(dirname q, Dir) \<in> set (fs_entries f)"
    by (intro fs_wf_parent) auto
  with dq have pde: "?pd \<in> fst ` set (fs_entries f)" by force
  from d have dpd: "dirname ?pd = dir" and bpd: "basename ?pd = d"
    using basename_dirname_split by simp_all
  from wf pde have "(dir, Dir) \<in> set (fs_entries f)"
    using fs_wf_parent [of f ?pd] dpd by simp
  with wf have ld: "gfile_listdir f dir = Inr (map basename (filter (\<lambda>q. dirname q = dir) (map fst (fs_entries f))))"
    by (simp add: fs_lookup_Dir gfile_listdir_Dir)
  from pde dpd bpd have "d \<in> set (map basename (filter (\<lambda>q. dirname q = dir) (map fst (fs_entries f))))"
    by force
  with qdn d n ld show ?thesis by blast
qed

subsection \<open>What the dataset's glob pattern lists\<close>

text \<open>\<open>tf.io.gfile.glob(os.path.join(path, '**/*.' + ext))\<close>, for a directory
  path and an extension free of glob metacharacters, lists exactly the entries
  \<open>path/d/n.ext\<close> where \<open>d\<close> and \<open>n\<close> contain no slash: files exactly two
  levels below the root, not at any depth.\<close>

lemma gfile_glob_dataset_files:
  assumes "glob_literal dir" "dir \<noteq> []" "last dir \<noteq> CHR ''/''" "glob_literal ext"
  shows "q \<in> set (gfile_glob f (path_join dir (''**/*.'' @ ext))) \<longleftrightarrow>
         q \<in> fst ` set (fs_entries f) \<and>
         (\<exists>d n. q = dir @ ''/'' @ d @ ''/'' @ n @ ''.'' @ ext \<and>
                CHR ''/'' \<notin> set d \<and> CHR ''/'' \<notin> set n)"
  using fnmatch_dataset_pattern [OF assms] by (simp add: gfile_glob_member)

lemma basename_dirname_dataset_path:
  "CHR ''/'' \<notin> set c \<Longrightarrow> CHR ''/'' \<notin> set n \<Longrightarrow> CHR ''/'' \<notin> set ext \<Longrightarrow>
   basename (dirname (p @ ''/'' @ c @ ''/'' @ n @ ''.'' @ ext)) = c"
  using basename_dirname_split [of "n @ ''.'' @ ext" "p @ CHR ''/'' # c"]
    basename_dirname_split [of c p] by simp

end
