(* ===== verification/TfRandom.thy ===== *)
theory TfRandom
  imports Prelude
begin

text \<open>
  TensorFlow's process-wide random state as the dataset code uses it.
  \<open>tf.random.set_seed(s)\<close> sets the global seed and restarts the sequence of
  operation seeds drawn from it (eager mode: a Python \<open>random.Random(s)\<close>);
  every random operation without its own seed draws the next operation seed.
  A random operation's numbers are a stream determined by the global seed and
  the index of the operation since \<open>set_seed\<close>: that generator (Philox in
  TensorFlow) is a parameter \<open>prng\<close> of the model, so the lemmas hold for any
  generator. Without a global seed TensorFlow seeds from the operating system:
  the model takes that stream as a further parameter \<open>entropy\<close>.
  \<open>tf.random.shuffle\<close> of a vector runs the loop of TensorFlow's
  \<open>RandomShuffleOp\<close>: for \<open>i = 0 .. n-2\<close>, swap element \<open>i\<close> with element
  \<open>i + uniform(n - i)\<close>.
\<close>

record tf_random =
  global_seed :: "int option"
  op_count :: nat

type_synonym prng = "int \<Rightarrow> nat \<Rightarrow> nat \<Rightarrow> nat"

definition set_seed :: "int \<Rightarrow> tf_random \<Rightarrow> tf_random" where
  "set_seed s r = r\<lparr>global_seed := Some s, op_count := 0\<rparr>"

text \<open>The draw stream of the next random operation, and the state after it.\<close>

definition next_op_stream ::
  "prng \<Rightarrow> (nat \<Rightarrow> nat) \<Rightarrow> tf_random \<Rightarrow> (nat \<Rightarrow> nat) \<times> tf_random" where
  "next_op_stream g entropy r =
     (case global_seed r of
        None \<Rightarrow> (entropy, r)
      | Some s \<Rightarrow> (g s (op_count r), r\<lparr>op_count := Suc (op_count r)\<rparr>))"

definition swap :: "nat \<Rightarrow> nat \<Rightarrow> 'a list \<Rightarrow> 'a list" where
  "swap i j xs = xs[i := xs ! j, j := xs ! i]"

text \<open>
  \<open>shuffle_loop u i m xs\<close>: the iterations from \<open>i\<close> on, \<open>m\<close> of them left;
  at iteration \<open>i\<close> there are \<open>m + 1\<close> elements after position \<open>i\<close>.
\<close>

fun shuffle_loop :: "(nat \<Rightarrow> nat) \<Rightarrow> nat \<Rightarrow> nat \<Rightarrow> 'a list \<Rightarrow> 'a list" where
  "shuffle_loop u i 0 xs = xs"
| "shuffle_loop u i (Suc m) xs =
     shuffle_loop u (Suc i) m (swap i (i + u i mod Suc (Suc m)) xs)"

definition random_shuffle_kernel :: "(nat \<Rightarrow> nat) \<Rightarrow> 'a list \<Rightarrow> 'a list" where
  "random_shuffle_kernel u xs =
     (if length xs \<le> 1 then xs else shuffle_loop u 0 (length xs - 1) xs)"

definition tf_random_shuffle ::
  "prng \<Rightarrow> (nat \<Rightarrow> nat) \<Rightarrow> tf_random \<Rightarrow> 'a list \<Rightarrow> 'a list \<times> tf_random" where
  "tf_random_shuffle g entropy r xs =
     (let (u, r') = next_op_stream g entropy r in (random_shuffle_kernel u xs, r'))"

subsection \<open>The shuffle is a permutation\<close>

lemma length_swap [simp]: "length (swap i j xs) = length xs"
  by (simp add: swap_def)

lemma mset_swap_in_range: "i < length xs \<Longrightarrow> j < length xs \<Longrightarrow> mset (swap i j xs) = mset xs"
  by (simp add: swap_def mset_swap)

lemma shuffle_loop_perm:
  "i + m < length xs \<Longrightarrow> mset (shuffle_loop u i m xs) = mset xs \<and> length (shuffle_loop u i m xs) = length xs"
proof (induction m arbitrary: i xs)
  case 0
  then show ?case by simp
next
  case (Suc m)
  let ?j = "i + u i mod Suc (Suc m)"
  have "u i mod Suc (Suc m) < Suc (Suc m)" by simp
  with Suc.prems have j: "?j < length xs" by linarith
  from Suc.prems have i: "i < length xs" by simp
  from Suc.prems have "Suc i + m < length (swap i ?j xs)" by simp
  then have "mset (shuffle_loop u (Suc i) m (swap i ?j xs)) = mset (swap i ?j xs) \<and>
      length (shuffle_loop u (Suc i) m (swap i ?j xs)) = length (swap i ?j xs)"
    by (rule Suc.IH)
  with i j show ?case by (simp add: mset_swap_in_range)
qed

lemma random_shuffle_kernel_perm:
  "mset (random_shuffle_kernel u xs) = mset xs"
  using shuffle_loop_perm [of 0 "length xs - 1" xs u]
  by (cases "length xs \<le> 1") (simp_all add: random_shuffle_kernel_def)

end
