(* ===== verification/TfImage.thy ===== *)
theory TfImage
  imports Prelude
begin

text \<open>
  Images and the image operations the dataset code calls. An image is a list of
  rows, a row a list of pixels, a pixel a list of channel values (TensorFlow's
  height x width x channels layout). Decoded images hold \<open>uint8\<close> values
  (\<open>8 word\<close>); \<open>tf.image.resize\<close> returns \<open>float32\<close> values, modelled as
  reals (the float rounding of the interpolation is not modelled).
  \<open>tf.image.resize(image, size)\<close> with its defaults (bilinear, no antialias) is
  TensorFlow's \<open>ResizeBilinear\<close> kernel with half-pixel centres: output row
  \<open>y\<close> samples the input at \<open>(y + 0.5) * in / out - 0.5\<close>, between the rows
  \<open>max(floor, 0)\<close> and \<open>min(ceil, in - 1)\<close>, with weight the fractional part;
  columns alike, and the four neighbours combine as in \<open>compute_lerp\<close>.
\<close>

type_synonym 'a image = "'a list list list"

definition img_shape :: "nat \<Rightarrow> nat \<Rightarrow> nat \<Rightarrow> 'a image \<Rightarrow> bool" where
  "img_shape h w c img \<longleftrightarrow>
     length img = h \<and> list_all (\<lambda>row. length row = w \<and> list_all (\<lambda>px. length px = c) row) img"

definition img_values :: "'a image \<Rightarrow> 'a set" where
  "img_values img = set (concat (concat img))"

definition img_map :: "('a \<Rightarrow> 'b) \<Rightarrow> 'a image \<Rightarrow> 'b image" where
  "img_map f img = map (map (map f)) img"

definition hp_src :: "nat \<Rightarrow> nat \<Rightarrow> nat \<Rightarrow> real" where
  "hp_src in_sz out_sz i = (real i + 1 / 2) * (real in_sz / real out_sz) - 1 / 2"

text \<open>\<open>compute_interpolation_weights\<close>: lower index, upper index, weight.\<close>

definition interp :: "nat \<Rightarrow> nat \<Rightarrow> nat \<Rightarrow> nat \<times> nat \<times> real" where
  "interp in_sz out_sz i =
     (let s = hp_src in_sz out_sz i
      in (nat (max \<lfloor>s\<rfloor> 0), min (nat \<lceil>s\<rceil>) (in_sz - 1), s - of_int \<lfloor>s\<rfloor>))"

definition lerp :: "real \<Rightarrow> real \<Rightarrow> real \<Rightarrow> real" where
  "lerp a b t = a + (b - a) * t"

definition bilinear_at :: "real image \<Rightarrow> nat \<times> nat \<times> real \<Rightarrow> nat \<times> nat \<times> real \<Rightarrow> nat \<Rightarrow> real" where
  "bilinear_at img yw xw k =
     (case yw of (y0, y1, yl) \<Rightarrow> case xw of (x0, x1, xl) \<Rightarrow>
        lerp (lerp (img ! y0 ! x0 ! k) (img ! y0 ! x1 ! k) xl)
             (lerp (img ! y1 ! x0 ! k) (img ! y1 ! x1 ! k) xl) yl)"

definition resize_bilinear :: "nat \<Rightarrow> nat \<Rightarrow> real image \<Rightarrow> real image" where
  "resize_bilinear oh ow img =
     (let ih = length img; iw = length (hd img); c = length (hd (hd img))
      in map (\<lambda>y. map (\<lambda>x. map (\<lambda>k. bilinear_at img (interp ih oh y) (interp iw ow x) k)
                                 [0..<c]) [0..<ow]) [0..<oh])"

text \<open>
  \<open>tf.image.resize(image, (h, w))\<close> on a decoded \<open>uint8\<close> image, with the
  checks of \<open>ResizeBilinear\<close>: positive output size, a non-empty input, at least
  one channel. (An image with no rows or columns holds no channel count here,
  so for it the size error is the one reported.)
\<close>

definition tf_image_resize :: "int \<times> int \<Rightarrow> 8 word image \<Rightarrow> real image res" where
  "tf_image_resize sz img =
     (case sz of (h, w) \<Rightarrow>
        if h \<le> 0 \<or> w \<le> 0 then Inl (InvalidArgumentError ''output dimensions must be positive'')
        else if img = [] \<or> hd img = [] then Inl (InvalidArgumentError ''input image must be of non-zero size'')
        else if hd (hd img) = [] then Inl (InvalidArgumentError ''image must have at least one channel'')
        else Inr (resize_bilinear (nat h) (nat w) (img_map (\<lambda>v. real (unat v)) img)))"

subsection \<open>Shapes and values\<close>

lemma img_shape_entry:
  assumes "img_shape h w c img" "y < h" "x < w"
  shows "img ! y \<in> set img \<and> length (img ! y) = w \<and> img ! y ! x \<in> set (img ! y) \<and>
         length (img ! y ! x) = c"
proof -
  from assms(1,2) have r: "img ! y \<in> set img" "length (img ! y) = w"
    by (auto simp: img_shape_def list_all_iff)
  with assms(1,3) show ?thesis by (auto simp: img_shape_def list_all_iff)
qed

lemma img_shape_nth:
  "img_shape h w c img \<Longrightarrow> y < h \<Longrightarrow> x < w \<Longrightarrow> k < c \<Longrightarrow> img ! y ! x ! k \<in> img_values img"
proof -
  assume s: "img_shape h w c img" and y: "y < h" and x: "x < w" and k: "k < c"
  from img_shape_entry [OF s y x] have r: "img ! y \<in> set img" "img ! y ! x \<in> set (img ! y)"
    and l: "length (img ! y ! x) = c" by simp_all
  from k l have "img ! y ! x ! k \<in> set (img ! y ! x)" by simp
  with r show ?thesis unfolding img_values_def set_concat by blast
qed

lemma img_shape_map [simp]: "img_shape h w c (img_map f img) = img_shape h w c img"
  by (simp add: img_shape_def img_map_def list_all_iff)

lemma img_values_map [simp]: "img_values (img_map f img) = f ` img_values img"
  by (auto simp: img_values_def img_map_def)

lemma img_map_nth:
  "img_shape h w c img \<Longrightarrow> y < h \<Longrightarrow> x < w \<Longrightarrow> k < c \<Longrightarrow>
   img_map f img ! y ! x ! k = f (img ! y ! x ! k)"
proof -
  assume s: "img_shape h w c img" and y: "y < h" and x: "x < w" and k: "k < c"
  from img_shape_entry [OF s y x] s y have "length img = h" "length (img ! y) = w"
    "length (img ! y ! x) = c" by (simp_all add: img_shape_def)
  with y x k show ?thesis by (simp add: img_map_def)
qed

lemma img_shape_hd:
  "img_shape h w c img \<Longrightarrow> 0 < h \<Longrightarrow> length img = h \<and> length (hd img) = w"
  by (cases img) (simp_all add: img_shape_def)

lemma img_shape_hd_hd:
  "img_shape h w c img \<Longrightarrow> 0 < h \<Longrightarrow> 0 < w \<Longrightarrow> length (hd (hd img)) = c"
  by (cases img; cases "hd img") (simp_all add: img_shape_def)

lemma resize_bilinear_shape:
  "img_shape oh ow (length (hd (hd img))) (resize_bilinear oh ow img)"
  by (simp add: resize_bilinear_def img_shape_def list_all_iff Let_def)

subsection \<open>Interpolation stays between its inputs\<close>

lemma lerp_between:
  assumes "lo \<le> a" "a \<le> hi" "lo \<le> b" "b \<le> hi" "0 \<le> t" "t \<le> 1"
  shows "lo \<le> lerp a b t \<and> lerp a b t \<le> hi"
proof -
  have eq: "lerp a b t = (1 - t) * a + t * b" by (simp add: lerp_def algebra_simps)
  have "(1 - t) * lo + t * lo \<le> (1 - t) * a + t * b"
    using assms by (intro add_mono mult_left_mono) simp_all
  moreover have "(1 - t) * a + t * b \<le> (1 - t) * hi + t * hi"
    using assms by (intro add_mono mult_left_mono) simp_all
  ultimately show ?thesis by (simp add: eq algebra_simps)
qed

lemma interp_weight:
  assumes "interp a b i = (l, u, t)"
  shows "0 \<le> t \<and> t \<le> 1"
proof -
  let ?s = "hp_src a b i"
  from assms have t: "t = ?s - of_int \<lfloor>?s\<rfloor>" by (simp add: interp_def Let_def)
  have "of_int \<lfloor>?s\<rfloor> \<le> ?s" by (rule of_int_floor_le)
  moreover have "?s < of_int \<lfloor>?s\<rfloor> + 1" by (rule real_of_int_floor_add_one_gt)
  ultimately show ?thesis using t by linarith
qed

lemma interp_indices:
  assumes "0 < in_sz" "i < out_sz" "interp in_sz out_sz i = (l, u, t)"
  shows "l < in_sz \<and> u < in_sz"
proof -
  let ?s = "hp_src in_sz out_sz i"
  have pos: "0 < real in_sz / real out_sz" using assms(1,2) by simp
  have "real i + 1 / 2 < real out_sz" using assms(2) by linarith
  then have "(real i + 1 / 2) * (real in_sz / real out_sz) < real out_sz * (real in_sz / real out_sz)"
    using pos by (rule mult_strict_right_mono)
  also have "\<dots> = real in_sz" using assms(2) by simp
  finally have "?s < real in_sz" by (simp add: hp_src_def)
  then have "\<lfloor>?s\<rfloor> < int in_sz" by linarith
  with assms(1,3) show ?thesis by (auto simp: interp_def Let_def)
qed

lemma bilinear_at_between:
  assumes s: "img_shape ih iw c img" and ne: "0 < ih" "0 < iw"
    and b: "\<forall>v \<in> img_values img. lo \<le> v \<and> v \<le> hi"
    and idx: "y < oh" "x < ow" "k < c"
  shows "lo \<le> bilinear_at img (interp ih oh y) (interp iw ow x) k \<and>
         bilinear_at img (interp ih oh y) (interp iw ow x) k \<le> hi"
proof -
  obtain y0 y1 yl where Y: "interp ih oh y = (y0, y1, yl)" by (cases "interp ih oh y") auto
  obtain x0 x1 xl where X: "interp iw ow x = (x0, x1, xl)" by (cases "interp iw ow x") auto
  from interp_indices [OF ne(1) idx(1) Y] have ys: "y0 < ih" "y1 < ih" by simp_all
  from interp_indices [OF ne(2) idx(2) X] have xs: "x0 < iw" "x1 < iw" by simp_all
  from interp_weight [OF Y] interp_weight [OF X] have w: "0 \<le> yl" "yl \<le> 1" "0 \<le> xl" "xl \<le> 1"
    by simp_all
  have v: "lo \<le> img ! a ! d ! k \<and> img ! a ! d ! k \<le> hi" if "a < ih" "d < iw" for a d
    using b img_shape_nth [OF s that idx(3)] by blast
  have top: "lo \<le> lerp (img ! y0 ! x0 ! k) (img ! y0 ! x1 ! k) xl \<and>
             lerp (img ! y0 ! x0 ! k) (img ! y0 ! x1 ! k) xl \<le> hi"
    using v [OF ys(1) xs(1)] v [OF ys(1) xs(2)] w by (intro lerp_between) simp_all
  have bot: "lo \<le> lerp (img ! y1 ! x0 ! k) (img ! y1 ! x1 ! k) xl \<and>
             lerp (img ! y1 ! x0 ! k) (img ! y1 ! x1 ! k) xl \<le> hi"
    using v [OF ys(2) xs(1)] v [OF ys(2) xs(2)] w by (intro lerp_between) simp_all
  have eq: "bilinear_at img (interp ih oh y) (interp iw ow x) k =
      lerp (lerp (img ! y0 ! x0 ! k) (img ! y0 ! x1 ! k) xl)
           (lerp (img ! y1 ! x0 ! k) (img ! y1 ! x1 ! k) xl) yl"
    by (simp add: bilinear_at_def Y X)
  show ?thesis
    unfolding eq using top bot w by (intro lerp_between) simp_all
qed

lemma resize_bilinear_between:
  assumes s: "img_shape ih iw c img" and ne: "0 < ih" "0 < iw"
    and b: "\<forall>v \<in> img_values img. lo \<le> v \<and> v \<le> hi"
  shows "\<forall>v \<in> img_values (resize_bilinear oh ow img). lo \<le> v \<and> v \<le> hi"
proof -
  from s ne have dims: "length img = ih" "length (hd img) = iw" "length (hd (hd img)) = c"
    using img_shape_hd img_shape_hd_hd by blast+
  show ?thesis
    using bilinear_at_between [OF s ne b]
    by (auto simp: resize_bilinear_def img_values_def dims)
qed

lemma tf_image_resize_ok:
  assumes "0 < th" "0 < tw" "img_shape h w c im" "0 < h" "0 < w" "0 < c"
  shows "\<exists>out. tf_image_resize (th, tw) im = Inr out"
proof -
  from assms(3-5) have "length im = h" "length (hd im) = w" "length (hd (hd im)) = c"
    using img_shape_hd img_shape_hd_hd by blast+
  with assms show ?thesis by (auto simp: tf_image_resize_def)
qed

subsection \<open>Resizing to the same size\<close>

lemma interp_same: "i < n \<Longrightarrow> interp n n i = (i, i, 0)"
proof -
  assume i: "i < n"
  then have "real n \<noteq> 0" by simp
  then have s: "hp_src n n i = real i" by (simp add: hp_src_def)
  have "\<lfloor>real i\<rfloor> = int i" "\<lceil>real i\<rceil> = int i" by simp_all
  with s i show ?thesis by (simp add: interp_def)
qed

lemma resize_bilinear_same:
  assumes "img_shape h w c img" "0 < h" "0 < w"
  shows "resize_bilinear h w img = img"
proof -
  from assms have dims: "length img = h" "length (hd img) = w" "length (hd (hd img)) = c"
    using img_shape_hd img_shape_hd_hd by blast+
  have row: "map (\<lambda>x. map (\<lambda>k. bilinear_at img (interp h h y) (interp w w x) k) [0..<c]) [0..<w] = img ! y"
    if y: "y < h" for y
  proof (rule nth_equalityI)
    from img_shape_entry [OF assms(1) y assms(3)] show
      "length (map (\<lambda>x. map (\<lambda>k. bilinear_at img (interp h h y) (interp w w x) k) [0..<c]) [0..<w]) = length (img ! y)"
      by simp
  next
    fix x assume "x < length (map (\<lambda>x. map (\<lambda>k. bilinear_at img (interp h h y) (interp w w x) k) [0..<c]) [0..<w])"
    then have x: "x < w" by simp
    from img_shape_entry [OF assms(1) y x] have l: "length (img ! y ! x) = c" by simp
    show "map (\<lambda>x. map (\<lambda>k. bilinear_at img (interp h h y) (interp w w x) k) [0..<c]) [0..<w] ! x = img ! y ! x"
      using x y l by (intro nth_equalityI) (simp_all add: interp_same bilinear_at_def lerp_def)
  qed
  show ?thesis
    using dims row by (intro nth_equalityI) (simp_all add: resize_bilinear_def Let_def)
qed

lemma tf_image_resize_same:
  assumes "img_shape h w c im" "0 < h" "0 < w" "0 < c"
  shows "tf_image_resize (int h, int w) im = Inr (img_map (\<lambda>v. real (unat v)) im)"
proof -
  from assms have "im \<noteq> []" "hd im \<noteq> []" "hd (hd im) \<noteq> []"
    using img_shape_hd img_shape_hd_hd by fastforce+
  with assms show ?thesis
    by (simp add: tf_image_resize_def resize_bilinear_same [of h w c])
qed

end
