(* ===== verification/TfData.thy ===== *)
theory TfData
  imports Prelude
begin

text \<open>
  \<open>tf.data.Dataset\<close> as the dataset code uses it. A dataset is lazy: building it
  runs nothing, and each element is computed when an iterator reaches it, where
  a failing computation raises. The model denotes a dataset by the sequence of
  its elements, each the value or the error its computation gives
  (\<open>'a tfds\<close>); iterating a dataset (\<open>ds_iterate\<close>, a Python \<open>for\<close> loop over
  it) returns all elements or raises the first error. \<open>map\<close> with
  \<open>num_parallel_calls\<close> keeps the element order (tf.data's default
  \<open>deterministic=True\<close>), so the parallelism hint has no effect on the
  sequence. \<open>cache()\<close> stores the elements of the first pass and replays them,
  \<open>prefetch(n)\<close> computes ahead: neither changes the sequence. \<open>batch(n)\<close>
  groups consecutive elements into lists of \<open>n\<close>, the last one shorter
  (\<open>drop_remainder=False\<close>); a batch fails with the first failing element in
  it. The check that batched tensors have equal shapes is not part of the
  model: the theorems show instead that the elements have equal shapes.
\<close>

type_synonym 'a tfds = "'a res list"

definition AUTOTUNE :: int where
  "AUTOTUNE = -1"

definition from_tensor_slices :: "'a list \<Rightarrow> 'a tfds" where
  "from_tensor_slices xs = map Inr xs"

definition ds_map :: "('a \<Rightarrow> 'b res) \<Rightarrow> 'a tfds \<Rightarrow> 'b tfds" where
  "ds_map f ds = map (\<lambda>r. res_bind r f) ds"

text \<open>
  \<open>Dataset.map(f, num_parallel_calls)\<close> with a parallelism argument builds a
  \<open>ParallelMapDataset\<close>, whose kernel raises \<open>InvalidArgumentError\<close> at
  construction unless the argument is positive or \<open>AUTOTUNE\<close>.
\<close>

definition parallel_calls_check :: "int \<Rightarrow> unit res" where
  "parallel_calls_check n =
     (if n = AUTOTUNE \<or> 0 < n then Inr ()
      else Inl (InvalidArgumentError ''num_parallel_calls must be greater than zero.''))"

definition ds_map_parallel :: "int \<Rightarrow> ('a \<Rightarrow> 'b res) \<Rightarrow> 'a tfds \<Rightarrow> 'b tfds res" where
  "ds_map_parallel n f ds = res_bind (parallel_calls_check n) (\<lambda>_. Inr (ds_map f ds))"

definition ds_cache :: "'a tfds \<Rightarrow> 'a tfds" where
  "ds_cache ds = ds"

definition ds_prefetch :: "int \<Rightarrow> 'a tfds \<Rightarrow> 'a tfds res" where
  "ds_prefetch n ds =
     (if n < AUTOTUNE then Inl (InvalidArgumentError ''buffer_size must be >= -1'') else Inr ds)"

fun res_list :: "'a res list \<Rightarrow> 'a list res" where
  "res_list [] = Inr []"
| "res_list (r # rs) = res_bind r (\<lambda>x. map_sum id ((#) x) (res_list rs))"

function chunks :: "nat \<Rightarrow> 'a list \<Rightarrow> 'a list list" where
  "chunks n xs = (if n = 0 \<or> xs = [] then [] else take n xs # chunks n (drop n xs))"
  by pat_completeness auto
termination
  by (relation "measure (\<lambda>(n, xs). length xs)") auto

declare chunks.simps [simp del]

definition ds_batch :: "int \<Rightarrow> 'a tfds \<Rightarrow> 'a list tfds res" where
  "ds_batch n ds =
     (if n \<le> 0 then Inl (InvalidArgumentError ''batch_size must be greater than zero'')
      else Inr (map res_list (chunks (nat n) ds)))"

text \<open>\<open>take(n)\<close>: the first \<open>n\<close> elements, all of them when \<open>n\<close> is negative.\<close>

definition ds_take :: "int \<Rightarrow> 'a tfds \<Rightarrow> 'a tfds" where
  "ds_take n xs = (if n < 0 then xs else take (nat n) xs)"

definition ds_iterate :: "'a tfds \<Rightarrow> 'a list res" where
  "ds_iterate ds = res_list ds"

subsection \<open>Iteration\<close>

lemma res_list_map_Inr [simp]: "res_list (map Inr xs) = Inr xs"
  by (induction xs) simp_all

lemma res_list_length: "res_list rs = Inr xs \<Longrightarrow> length xs = length rs"
  by (induction rs arbitrary: xs) (auto simp: res_bind_def split: sum.splits)

lemma res_list_Inr_iff: "res_list rs = Inr xs \<longleftrightarrow> rs = map Inr xs"
proof (induction rs arbitrary: xs)
  case Nil
  then show ?case by auto
next
  case (Cons r rs)
  then show ?case by (cases r) (auto simp: Cons_eq_map_conv)
qed

lemma res_list_append:
  "res_list (xs @ ys) = res_bind (res_list xs) (\<lambda>a. map_sum id ((@) a) (res_list ys))"
proof (induction xs)
  case Nil
  then show ?case by (cases "res_list ys") simp_all
next
  case (Cons r xs)
  then show ?case
    by (cases r; cases "res_list xs"; cases "res_list ys") simp_all
qed

lemma res_list_ds_map:
  "res_list (ds_map f (map Inr xs)) = res_list (map f xs)"
  by (simp add: ds_map_def comp_def)

subsection \<open>Chunks\<close>

lemma chunks_Nil [simp]: "chunks n [] = []"
  by (simp add: chunks.simps)

lemma chunks_Cons_take:
  "0 < n \<Longrightarrow> xs \<noteq> [] \<Longrightarrow> chunks n xs = take n xs # chunks n (drop n xs)"
  by (simp add: chunks.simps)

lemma concat_chunks: "0 < n \<Longrightarrow> concat (chunks n xs) = xs"
proof (induction n xs rule: chunks.induct)
  case (1 n xs)
  then show ?case by (cases "xs = []") (simp_all add: chunks_Cons_take)
qed

lemma chunks_length_bound: "c \<in> set (chunks n xs) \<Longrightarrow> 0 < length c \<and> length c \<le> n"
proof (induction n xs rule: chunks.induct)
  case (1 n xs)
  then show ?case
    by (cases "n = 0 \<or> xs = []") (auto simp: chunks.simps [of n xs])
qed

lemma chunks_full:
  "i + 1 < length (chunks n xs) \<Longrightarrow> length (chunks n xs ! i) = n"
proof (induction n xs arbitrary: i rule: chunks.induct)
  case (1 n xs)
  show ?case
  proof (cases "n = 0 \<or> xs = []")
    case True
    with "1.prems" show ?thesis by (simp add: chunks.simps [of n xs])
  next
    case False
    then have eq: "chunks n xs = take n xs # chunks n (drop n xs)"
      by (simp add: chunks_Cons_take)
    show ?thesis
    proof (cases i)
      case 0
      from "1.prems" eq have "drop n xs \<noteq> []" by auto
      then have "n \<le> length xs" by simp
      with eq 0 show ?thesis by simp
    next
      case (Suc j)
      with "1.prems" eq have "j + 1 < length (chunks n (drop n xs))" by simp
      with "1.IH" False eq Suc show ?thesis by simp
    qed
  qed
qed

lemma chunks_append_first:
  assumes "0 < n" "a \<noteq> []" "length a \<le> n" "length a = n \<or> b = []"
  shows "chunks n (a @ b) = a # chunks n b"
  using assms by (auto simp: chunks_Cons_take)

lemma chunks_map: "chunks n (map f xs) = map (map f) (chunks n xs)"
proof (induction n xs rule: chunks.induct)
  case (1 n xs)
  then show ?case
    by (cases "n = 0 \<or> xs = []") (auto simp: chunks.simps [of n xs] chunks.simps [of n "map f xs"]
        take_map drop_map)
qed

lemma res_list_chunks:
  "0 < n \<Longrightarrow> res_list (map res_list (chunks n ds)) = map_sum id (chunks n) (res_list ds)"
proof (induction n ds rule: chunks.induct)
  case (1 n ds)
  show ?case
  proof (cases "ds = []")
    case True
    then show ?thesis by simp
  next
    case False
    let ?a = "take n ds" and ?b = "drop n ds"
    have IH: "res_list (map res_list (chunks n ?b)) = map_sum id (chunks n) (res_list ?b)"
      using "1.IH" "1.prems" False by (simp add: id_def)
    have split: "res_list ds = res_bind (res_list ?a) (\<lambda>a. map_sum id ((@) a) (res_list ?b))"
      using res_list_append [of ?a ?b] by simp
    show ?thesis
    proof (cases "res_list ?a")
      case (Inl e)
      with False "1.prems" split show ?thesis by (simp add: chunks_Cons_take)
    next
      case (Inr a)
      have la: "length a = length ?a" using res_list_length [OF Inr] .
      show ?thesis
      proof (cases "res_list ?b")
        case (Inl e)
        with Inr False "1.prems" split IH show ?thesis by (simp add: chunks_Cons_take)
      next
        case (Inr b)
        have lb: "length b = length ?b" using res_list_length [OF Inr] .
        have "chunks n (a @ b) = a # chunks n b"
          using la lb False "1.prems" by (intro chunks_append_first) (auto simp: min_def split: if_splits)
        with \<open>res_list ?a = Inr a\<close> Inr False "1.prems" split IH show ?thesis
          by (simp add: chunks_Cons_take)
      qed
    qed
  qed
qed

lemma res_list_all_Inr:
  "\<forall>r \<in> set rs. \<exists>x. r = Inr x \<Longrightarrow> \<exists>xs. res_list rs = Inr xs \<and> length xs = length rs"
proof (induction rs)
  case Nil
  then show ?case by simp
next
  case (Cons r rs)
  then obtain x xs where "r = Inr x" "res_list rs = Inr xs" "length xs = length rs" by auto
  then show ?case by simp
qed

lemma set_ds_take: "set (ds_take n xs) \<subseteq> set xs"
  by (auto simp: ds_take_def dest: in_set_takeD)

lemma length_ds_take: "0 \<le> n \<Longrightarrow> length (ds_take n xs) \<le> nat n"
  by (simp add: ds_take_def)

lemma ds_map_parallel_ok [simp]:
  "n = AUTOTUNE \<or> 0 < n \<Longrightarrow> ds_map_parallel n f ds = Inr (ds_map f ds)"
  by (auto simp: ds_map_parallel_def parallel_calls_check_def)

lemma ds_map_parallel_bad [simp]:
  "\<not> (n = AUTOTUNE \<or> 0 < n) \<Longrightarrow>
   ds_map_parallel n f ds = Inl (InvalidArgumentError ''num_parallel_calls must be greater than zero.'')"
  by (simp add: ds_map_parallel_def parallel_calls_check_def)

end
