(* ===== verification/Dataset.thy ===== *)
theory Dataset
  imports Gfile TfRandom TfImage TfData
begin

text \<open>
  The dataset builder of \<open>src/utils/dataset.py\<close>. \<open>decode_image\<close>,
  \<open>process_image\<close>, \<open>aug_fn\<close> and \<open>aug_process\<close> are functions of the same
  names; class \<open>Dataset\<close> is the record \<open>dataset\<close>, its constructor
  \<open>dataset_init\<close>, its methods \<open>read_files\<close>, \<open>map_files\<close>, \<open>get_ds\<close> and
  \<open>get_decode_ds\<close>. The framework services are those of the theories
  \<open>Gfile\<close>, \<open>TfRandom\<close>, \<open>TfImage\<close> and \<open>TfData\<close>; \<open>tf_env\<close> gathers what
  the model takes as given: the PNG and JPEG decoders, the random generator,
  the operating system's entropy and \<open>train_transforms\<close> of
  \<open>utils/augmentation.py\<close> (not part of the sources, so an arbitrary function).
  The constructor threads TensorFlow's global random state: \<open>set_seed\<close>
  changes it before anything can fail, and the shuffle draws an operation seed.
  The elements of the datasets are computed when iterated; the model computes
  them against the file system given to the constructor, i.e. it assumes the
  files do not change between construction and iteration.
\<close>

record codecs =
  decode_png :: "8 word list \<Rightarrow> 8 word image res"
  decode_jpeg :: "8 word list \<Rightarrow> 8 word image res"

record tf_env =
  env_codecs :: codecs
  env_prng :: prng
  env_entropy :: "nat \<Rightarrow> nat"
  train_transforms :: "real image \<Rightarrow> real image"

type_synonym decoded = "8 word image \<times> real list"
type_synonym sample = "real image \<times> real list"

subsection \<open>Functions of the module\<close>

text \<open>\<open>tf.cast(label == labels, dtype=tf.float32)\<close>: element-wise comparison.\<close>

definition one_hot_eq :: "string \<Rightarrow> string list \<Rightarrow> real list" where
  "one_hot_eq label labels = map (\<lambda>l. if label = l then 1 else 0) labels"

definition decode_image :: "codecs \<Rightarrow> fs \<Rightarrow> string \<Rightarrow> string list \<Rightarrow> decoded res" where
  "decode_image cs f path labels =
     res_bind (read_file f path) (\<lambda>img_bin.
     res_bind (py_index (split_on CHR ''/'' path) (-2)) (\<lambda>label.
     res_bind (py_index (split_on CHR ''.'' path) (-1)) (\<lambda>ext.
     res_bind (if ext = ''png'' then decode_png cs img_bin
               else if ext = ''jpeg'' \<or> ext = ''jpg'' then decode_jpeg cs img_bin
               else decode_png cs img_bin) (\<lambda>img.
     Inr (img, one_hot_eq label labels)))))"

text \<open>The decoder \<open>decode_image\<close> chooses for an extension (its lines 16-23).\<close>

definition codec_of_ext :: "codecs \<Rightarrow> string \<Rightarrow> 8 word list \<Rightarrow> 8 word image res" where
  "codec_of_ext cs ext = (if ext = ''png'' then decode_png cs
     else if ext = ''jpeg'' \<or> ext = ''jpg'' then decode_jpeg cs else decode_png cs)"

definition aug_fn :: "(real image \<Rightarrow> real image) \<Rightarrow> real image \<Rightarrow> bool \<Rightarrow> real image" where
  "aug_fn tt im training = (if training then tt im else im)"

text \<open>\<open>tf.numpy_function(func=aug_fn, inp=[image, is_training], Tout=tf.float32)\<close>.\<close>

definition aug_process :: "(real image \<Rightarrow> real image) \<Rightarrow> real image \<Rightarrow> bool \<Rightarrow> real image" where
  "aug_process tt im training = aug_fn tt im training"

definition process_image ::
  "(real image \<Rightarrow> real image) \<Rightarrow> decoded \<Rightarrow> int \<times> int \<Rightarrow> bool \<Rightarrow> sample res" where
  "process_image tt x tsize training =
     (case x of (im, label_encoded) \<Rightarrow>
        res_bind (tf_image_resize tsize im) (\<lambda>img.
          let img = aug_process tt img training
          in Inr (img_map (\<lambda>v. v / 255) img, label_encoded)))"

subsection \<open>Class Dataset\<close>

text \<open>
  The file list as a tensor: a list of strings converts to a string vector, but
  the empty list converts to an empty \<open>float32\<close> vector.
\<close>

datatype files_tensor = StringVec "string list" | EmptyFloatVec

definition convert_to_tensor :: "string list \<Rightarrow> files_tensor" where
  "convert_to_tensor xs = (if xs = [] then EmptyFloatVec else StringVec xs)"

text \<open>\<open>tf.random.shuffle(files)\<close> of a Python list: converted, then shuffled.\<close>

definition shuffle_tensor :: "tf_env \<Rightarrow> string list \<Rightarrow> tf_random \<Rightarrow> files_tensor \<times> tf_random" where
  "shuffle_tensor env files r =
     (case convert_to_tensor files of
        StringVec xs \<Rightarrow>
          (case tf_random_shuffle (env_prng env) (env_entropy env) r xs of
             (ys, r') \<Rightarrow> (StringVec ys, r'))
      | EmptyFloatVec \<Rightarrow> (EmptyFloatVec, snd (next_op_stream (env_prng env) (env_entropy env) r)))"

record dataset =
  ds_path :: string
  extension_type :: string
  num_parallel_calls :: int
  random_seed :: int
  is_training :: bool
  target_shape :: "int \<times> int"
  shuffle :: bool
  labels :: "string list"
  ds :: "sample tfds"
  decode_ds :: "decoded tfds"

definition read_files ::
  "tf_env \<Rightarrow> fs \<Rightarrow> string \<Rightarrow> string \<Rightarrow> bool \<Rightarrow> tf_random \<Rightarrow> files_tensor \<times> tf_random" where
  "read_files env f path ext shuf r =
     (let files = gfile_glob f (path_join path (''**/*.'' @ ext))
      in if shuf then shuffle_tensor env files r else (convert_to_tensor files, r))"

text \<open>
  \<open>map_files\<close>: each \<open>Dataset.map(..., self.num_parallel_calls)\<close> first traces
  its function (a \<open>float32\<close> file tensor fails there, at \<open>tf.io.read_file\<close>)
  and then builds the parallel map, which checks \<open>num_parallel_calls\<close>.
  Returns \<open>decode_ds\<close> and the new \<open>self.ds\<close>.
\<close>

definition map_files ::
  "tf_env \<Rightarrow> fs \<Rightarrow> files_tensor \<Rightarrow> string list \<Rightarrow> int \<Rightarrow> int \<times> int \<Rightarrow> bool \<Rightarrow>
   (decoded tfds \<times> sample tfds) res" where
  "map_files env f t lbls npc target training =
     (case t of
        EmptyFloatVec \<Rightarrow>
          Inl (TypeError ''Input 'filename' of 'ReadFile' Op has type float32 that does not match expected type of string'')
      | StringVec files \<Rightarrow>
          res_bind (ds_map_parallel npc (\<lambda>p. decode_image (env_codecs env) f p lbls) (from_tensor_slices files))
            (\<lambda>dec. res_bind (ds_map_parallel npc (\<lambda>x. process_image (train_transforms env) x target training) dec)
            (\<lambda>proc. Inr (dec, proc))))"

definition dataset_init ::
  "tf_env \<Rightarrow> fs \<Rightarrow> tf_random \<Rightarrow> string \<Rightarrow> string \<Rightarrow> int \<Rightarrow> int \<Rightarrow> bool \<Rightarrow> int \<times> int \<Rightarrow>
   dataset res \<times> tf_random" where
  "dataset_init env f r path ext npc seed training target =
     (let (r1, shuf) = (if 0 < seed then (set_seed seed r, True) else (r, False))
      in case gfile_listdir f path of
           Inl e \<Rightarrow> (Inl e, r1)
         | Inr names \<Rightarrow>
             (let lbls = sort names;
                  (t, r2) = read_files env f path ext shuf r1
              in (res_bind (map_files env f t lbls npc target training) (\<lambda>(dec, proc).
                    Inr \<lparr>ds_path = path, extension_type = ext, num_parallel_calls = npc,
                         random_seed = seed, is_training = training, target_shape = target,
                         shuffle = shuf, labels = lbls, ds = proc, decode_ds = dec\<rparr>), r2)))"

definition get_ds :: "dataset \<Rightarrow> sample tfds" where
  "get_ds d = ds d"

definition get_decode_ds :: "dataset \<Rightarrow> decoded tfds" where
  "get_decode_ds d = decode_ds d"

text \<open>What the model takes of the framework's decoders: three channels, non-empty.\<close>

definition codec_ok :: "(8 word list \<Rightarrow> 8 word image res) \<Rightarrow> bool" where
  "codec_ok dec \<longleftrightarrow> (\<forall>b img. dec b = Inr img \<longrightarrow> (\<exists>h w. 0 < h \<and> 0 < w \<and> img_shape h w 3 img))"

subsection \<open>Example inputs\<close>

text \<open>
  A small test tree: two class directories holding one PNG each, and a stray file
  \<open>notes.txt\<close> directly under the root; a PNG decoder returning a 1x1 pixel,
  a JPEG decoder that fails, the identity generator and transforms. The
  witnesses evaluate the definitions on it.
\<close>

definition example_fs :: fs where
  "example_fs = \<lparr>fs_entries = [(''data'', Dir), (''data/Test'', Dir), (''data/Test/cat'', Dir),
     (''data/Test/cat/a.png'', File [1]), (''data/Test/dog'', Dir), (''data/Test/dog/b.png'', File [2]),
     (''data/Test/notes.txt'', File [3]),
     (''saved_models'', Dir), (''saved_models/TSL_MobileNetV2.h5'', File [4])]\<rparr>"
definition example_env :: tf_env where
  "example_env = \<lparr>env_codecs = \<lparr>decode_png = (\<lambda>b. Inr [[[0, 128, 255]]]),
       decode_jpeg = (\<lambda>b. Inl (InvalidArgumentError ''not a JPEG''))\<rparr>,
     env_prng = (\<lambda>s k i. i), env_entropy = (\<lambda>i. 0), train_transforms = (\<lambda>x. x)\<rparr>"
definition example_ds :: dataset where
  "example_ds = \<lparr>ds_path = ''data/Test'', extension_type = ''png'',
         num_parallel_calls = - 1, random_seed = 1, is_training = False,
         target_shape = (1, 1), shuffle = True, labels = [''cat'', ''dog'', ''notes.txt''],
         ds = [Inr ([[[0, 128 / 255, 1]]], [1, 0, 0]), Inr ([[[0, 128 / 255, 1]]], [0, 1, 0])],
         decode_ds = [Inr ([[[0, 128, 255]]], [1, 0, 0]), Inr ([[[0, 128, 255]]], [0, 1, 0])]\<rparr>"

text \<open>The example environment with decoders that refuse every file.\<close>

definition corrupt_env :: tf_env where
  "corrupt_env = example_env\<lparr>env_codecs := \<lparr>decode_png = (\<lambda>b. Inl (InvalidArgumentError ''Invalid PNG data'')),
     decode_jpeg = (\<lambda>b. Inl (InvalidArgumentError ''Invalid JPEG data''))\<rparr>\<rparr>"

subsection \<open>Helper lemmas\<close>


lemma set_seed_const: "set_seed s r = \<lparr>global_seed = Some s, op_count = 0\<rparr>"
  by (cases r) (simp add: set_seed_def)

lemma one_hot_eq_length [simp]: "length (one_hot_eq l ls) = length ls"
  by (simp add: one_hot_eq_def)

lemma one_hot_eq_nth: "j < length ls \<Longrightarrow> one_hot_eq l ls ! j = (if ls ! j = l then 1 else 0)"
  by (auto simp: one_hot_eq_def)

lemma sum_one_hot_eq: "distinct ls \<Longrightarrow> sum_list (one_hot_eq l ls) = (if l \<in> set ls then 1 else 0)"
  by (induction ls) (auto simp: one_hot_eq_def)

lemma dataset_path_split:
  assumes "CHR ''/'' \<notin> set d" "CHR ''/'' \<notin> set n" "CHR ''/'' \<notin> set ext" "CHR ''.'' \<notin> set ext"
  shows "py_index (split_on CHR ''/'' (dir @ ''/'' @ d @ ''/'' @ n @ ''.'' @ ext)) (-2) = Inr d \<and>
         py_index (split_on CHR ''.'' (dir @ ''/'' @ d @ ''/'' @ n @ ''.'' @ ext)) (-1) = Inr ext"
proof -
  have "split_on CHR ''/'' (dir @ ''/'' @ d @ ''/'' @ n @ ''.'' @ ext) =
        split_on CHR ''/'' dir @ [d, n @ ''.'' @ ext]"
    using assms by (simp add: split_on_append_sep)
  moreover have "split_on CHR ''.'' ((dir @ ''/'' @ d @ ''/'' @ n) @ CHR ''.'' # ext) =
        split_on CHR ''.'' (dir @ ''/'' @ d @ ''/'' @ n) @ [ext]"
    using assms split_on_append_sep [of "CHR ''.''" "dir @ ''/'' @ d @ ''/'' @ n" ext] by simp
  ultimately show ?thesis by simp
qed


lemma decode_image_dataset_path:
  assumes "CHR ''/'' \<notin> set d" "CHR ''/'' \<notin> set n" "CHR ''/'' \<notin> set ext" "CHR ''.'' \<notin> set ext"
  shows "decode_image cs f (dir @ ''/'' @ d @ ''/'' @ n @ ''.'' @ ext) lbls =
         res_bind (read_file f (dir @ ''/'' @ d @ ''/'' @ n @ ''.'' @ ext)) (\<lambda>b.
           res_bind (codec_of_ext cs ext b) (\<lambda>img. Inr (img, one_hot_eq d lbls)))"
  using dataset_path_split [OF assms, of dir]
  by (simp add: decode_image_def codec_of_ext_def)

lemma dataset_init_Inr:
  assumes "dataset_init env f r path ext npc seed tr target = (Inr d, r')"
  obtains names files where
    "gfile_listdir f path = Inr names"
    "read_files env f path ext (0 < seed) (if 0 < seed then set_seed seed r else r) = (StringVec files, r')"
    "labels d = sort names"
    "get_decode_ds d = map (\<lambda>p. decode_image (env_codecs env) f p (sort names)) files"
    "get_ds d = ds_map (\<lambda>x. process_image (train_transforms env) x target tr) (get_decode_ds d)"
    "shuffle d = (0 < seed)" "is_training d = tr" "target_shape d = target"
    "npc = AUTOTUNE \<or> 0 < npc"
  using assms
  by (auto simp: dataset_init_def Let_def map_files_def get_decode_ds_def get_ds_def
        ds_map_parallel_def parallel_calls_check_def
        ds_map_def from_tensor_slices_def split: if_splits sum.splits prod.splits files_tensor.splits
        intro: that)

lemma read_files_perm:
  assumes "read_files env f path ext shuf r = (StringVec files, r')"
  shows "mset files = mset (gfile_glob f (path_join path (''**/*.'' @ ext))) \<and>
         (\<not> shuf \<longrightarrow> files = gfile_glob f (path_join path (''**/*.'' @ ext)) \<and> r' = r)"
  using assms
  by (auto simp: read_files_def shuffle_tensor_def convert_to_tensor_def tf_random_shuffle_def
        random_shuffle_kernel_perm Let_def split: if_splits prod.splits)


lemma dataset_glob_label:
  assumes wf: "fs_wf f" and pat: "glob_literal path" "path \<noteq> []" "last path \<noteq> CHR ''/''"
    "glob_literal ext" "CHR ''/'' \<notin> set ext" "CHR ''.'' \<notin> set ext"
    and ln: "gfile_listdir f path = Inr names"
    and q: "q \<in> set (gfile_glob f (path_join path (''**/*.'' @ ext)))"
  shows "basename (dirname q) \<in> set names \<and>
         decode_image cs f q (sort names) =
           res_bind (read_file f q) (\<lambda>b. res_bind (codec_of_ext cs ext b) (\<lambda>img.
             Inr (img, one_hot_eq (basename (dirname q)) (sort names))))"
proof -
  from glob_dataset_parent [OF wf pat(1-4) pat(5) q] obtain d n ns where
    qdn: "q = path @ ''/'' @ d @ ''/'' @ n @ ''.'' @ ext" and d: "CHR ''/'' \<notin> set d"
    and n: "CHR ''/'' \<notin> set n" and ns: "gfile_listdir f path = Inr ns" "d \<in> set ns"
    by blast
  from ns ln have "names = ns" by simp
  moreover have "basename (dirname q) = d"
  proof -
    from n pat(5) have "dirname q = path @ CHR ''/'' # d"
      using basename_dirname_split [of "n @ ''.'' @ ext" "path @ CHR ''/'' # d"] qdn by simp
    with d show ?thesis using basename_dirname_split by simp
  qed
  ultimately show ?thesis
    using ns qdn decode_image_dataset_path [OF d n pat(5,6)] by simp
qed

lemma process_image_eval_mode:
  "process_image tt x t False =
   (case x of (im, l) \<Rightarrow> res_bind (tf_image_resize t im) (\<lambda>img. Inr (img_map (\<lambda>v. v / 255) img, l)))"
  by (simp add: process_image_def aug_process_def aug_fn_def)

lemma tf_image_resize_Inr:
  assumes "tf_image_resize (th, tw) im = Inr out"
  shows "0 < th \<and> 0 < tw \<and> im \<noteq> [] \<and> hd im \<noteq> [] \<and>
         out = resize_bilinear (nat th) (nat tw) (img_map (\<lambda>v. real (unat v)) im)"
  using assms by (auto simp: tf_image_resize_def split: if_splits)

lemma unat_byte_range: "0 \<le> real (unat (v :: 8 word)) \<and> real (unat v) \<le> 255"
proof -
  have "unat v \<le> 255" using unsigned_less [of v, where ?'a = nat] by simp
  then have "real (unat v) \<le> real (255::nat)" by (rule of_nat_mono)
  moreover have "0 \<le> real (unat v)" by (rule of_nat_0_le_iff)
  ultimately show ?thesis by simp
qed

lemma resize_decoded_range:
  assumes "img_shape h w c im" "0 < h" "0 < w"
    and "tf_image_resize t im = Inr out"
  shows "\<forall>v \<in> img_values out. 0 \<le> v \<and> v \<le> 255"
proof -
  obtain th tw where t: "t = (th, tw)" by (cases t)
  from assms(4) t have out: "out = resize_bilinear (nat th) (nat tw) (img_map (\<lambda>v. real (unat v)) im)"
    using tf_image_resize_Inr by blast
  have "\<forall>v \<in> img_values (img_map (\<lambda>v. real (unat v)) im). 0 \<le> v \<and> v \<le> 255"
    using unat_byte_range by auto
  with assms(1-3) show ?thesis
    unfolding out by (intro resize_bilinear_between [of h w c]) simp_all
qed

lemma img_values_scale:
  "\<forall>v \<in> img_values x. 0 \<le> v \<and> v \<le> 255 \<Longrightarrow> \<forall>v \<in> img_values (img_map (\<lambda>v. v / 255) x). 0 \<le> v \<and> v \<le> (1::real)"
  by auto

lemmas example_simps = example_fs_def example_env_def gfile_listdir_def fs_lookup_def
    read_files_def gfile_glob_def path_join_def shuffle_tensor_def convert_to_tensor_def
    tf_random_shuffle_def next_op_stream_def set_seed_const random_shuffle_kernel_def swap_def compile_glob_def
    map_files_def ds_map_parallel_def parallel_calls_check_def AUTOTUNE_def basename_def dirname_def
    Let_def ds_map_def from_tensor_slices_def decode_image_def read_file_def py_index_def
    process_image_def aug_process_def aug_fn_def tf_image_resize_def resize_bilinear_def
    bilinear_at_def interp_def hp_src_def lerp_def img_map_def one_hot_eq_def

lemma example_dataset:
  "dataset_init example_env example_fs r ''data/Test'' ''png'' (-1) 1 False (1, 1) =
   (Inr example_ds, \<lparr>global_seed = Some 1, op_count = 1\<rparr>)"
  by (simp add: dataset_init_def example_ds_def example_simps)

lemma example_fs_wf: "fs_wf example_fs"
  by (simp add: fs_wf_def example_fs_def fs_lookup_def dirname_def)

lemma example_pattern:
  "glob_literal ''data/Test''" "''data/Test'' \<noteq> []" "last ''data/Test'' \<noteq> CHR ''/''"
  "glob_literal ''png''" "CHR ''/'' \<notin> set ''png''" "CHR ''.'' \<notin> set ''png''"
  by (simp_all add: glob_literal_def)

lemma dataset_decode_elem:
  assumes wf: "fs_wf f" and pat: "glob_literal path" "path \<noteq> []" "last path \<noteq> CHR ''/''"
    "glob_literal ext" "CHR ''/'' \<notin> set ext" "CHR ''.'' \<notin> set ext"
    and d: "dataset_init env f r path ext npc seed tr target = (Inr d, r')"
    and y: "y \<in> set (get_decode_ds d)"
  shows "distinct (labels d) \<and>
    (\<exists>q \<in> set (gfile_glob f (path_join path (''**/*.'' @ ext))).
       basename (dirname q) \<in> set (labels d) \<and>
       y = res_bind (read_file f q) (\<lambda>b. res_bind (codec_of_ext (env_codecs env) ext b) (\<lambda>img.
             Inr (img, one_hot_eq (basename (dirname q)) (labels d)))))"
proof -
  obtain names files where ln: "gfile_listdir f path = Inr names"
    and rf: "read_files env f path ext (0 < seed) (if 0 < seed then set_seed seed r else r) = (StringVec files, r')"
    and lb: "labels d = sort names"
    and dd: "get_decode_ds d = map (\<lambda>p. decode_image (env_codecs env) f p (sort names)) files"
    and "get_ds d = ds_map (\<lambda>x. process_image (train_transforms env) x target tr) (get_decode_ds d)"
    and "shuffle d = (0 < seed)" "is_training d = tr" "target_shape d = target"
    by (rule dataset_init_Inr [OF d])
  from read_files_perm [OF rf] have "set files = set (gfile_glob f (path_join path (''**/*.'' @ ext)))"
    by (metis mset_eq_setD)
  moreover from y dd obtain q where "q \<in> set files"
    and yq: "y = decode_image (env_codecs env) f q (sort names)"
    by (auto simp only: set_map)
  ultimately have q: "q \<in> set (gfile_glob f (path_join path (''**/*.'' @ ext)))" by simp
  have "distinct names" using gfile_listdir_distinct [OF wf pat(2) ln] .
  then have dl: "distinct (labels d)" by (simp add: lb)
  from dataset_glob_label [OF wf pat ln q, of "env_codecs env"] yq lb
  have "basename (dirname q) \<in> set (labels d) \<and>
       y = res_bind (read_file f q) (\<lambda>b. res_bind (codec_of_ext (env_codecs env) ext b) (\<lambda>img.
             Inr (img, one_hot_eq (basename (dirname q)) (labels d))))"
    by simp
  with dl q show ?thesis by blast
qed

lemma dataset_init_labels:
  assumes "dataset_init env f r path ext npc seed tr target = (Inr d, r')"
  obtains names where "gfile_listdir f path = Inr names" "labels d = sort names"
  by (rule dataset_init_Inr [OF assms], rule that)

lemma process_image_Inr:
  assumes "process_image tt (im, l) t tr = Inr (out, l')"
  shows "\<exists>img. tf_image_resize t im = Inr img \<and> out = img_map (\<lambda>v. v / 255) (aug_fn tt img tr) \<and> l' = l"
  using assms by (auto simp: process_image_def aug_process_def Let_def)

lemma example_dataset_unseeded:
  "dataset_init example_env example_fs r ''data/Test'' ''png'' (-1) 0 False (1, 1) =
   (Inr (example_ds\<lparr>random_seed := 0, shuffle := False\<rparr>), r)"
  by (simp add: dataset_init_def example_ds_def example_simps)

lemma read_files_transforms:
  "read_files (env\<lparr>train_transforms := t\<rparr>) f path ext shuf r = read_files env f path ext shuf r"
  by (simp add: read_files_def shuffle_tensor_def Let_def split: files_tensor.split)

lemma map_files_eval_transforms:
  "map_files (env\<lparr>train_transforms := t\<rparr>) f x lbls npc target False = map_files env f x lbls npc target False"
  by (simp add: map_files_def ds_map_parallel_def process_image_eval_mode split: files_tensor.splits)

lemma process_image_values:
  assumes "img_shape h w c im" "0 < h" "0 < w"
    and "tr \<Longrightarrow> \<forall>x. (\<forall>v \<in> img_values x. 0 \<le> v \<and> v \<le> 255) \<longrightarrow> (\<forall>v \<in> img_values (tt x). 0 \<le> v \<and> v \<le> 255)"
    and "process_image tt (im, l) t tr = Inr (out, l')"
  shows "\<forall>v \<in> img_values out. 0 \<le> v \<and> v \<le> 1"
proof -
  from process_image_Inr [OF assms(5)] obtain img where
    rs: "tf_image_resize t im = Inr img" and out: "out = img_map (\<lambda>v. v / 255) (aug_fn tt img tr)"
    by blast
  have rg: "\<forall>v \<in> img_values img. 0 \<le> v \<and> v \<le> 255" by (rule resize_decoded_range [OF assms(1-3) rs])
  have "\<forall>v \<in> img_values (aug_fn tt img tr). 0 \<le> v \<and> v \<le> 255"
  proof (cases tr)
    case True
    have "\<forall>v \<in> img_values (tt img). 0 \<le> v \<and> v \<le> 255"
      using assms(4) [OF True] rg by blast
    with True show ?thesis by (simp only: aug_fn_def if_True)
  next
    case False
    with rg show ?thesis by (simp only: aug_fn_def if_False)
  qed
  then show ?thesis unfolding out by (rule img_values_scale)
qed

lemma process_image_dims:
  assumes "img_shape h w c im" "0 < h" "0 < w"
    and "tr \<Longrightarrow> \<forall>x. img_shape (nat th) (nat tw) c x \<longrightarrow> img_shape (nat th) (nat tw) c (tt x)"
    and "process_image tt (im, l) (th, tw) tr = Inr (out, l')"
  shows "0 < th \<and> 0 < tw \<and> img_shape (nat th) (nat tw) c out \<and> l' = l"
proof -
  from process_image_Inr [OF assms(5)] obtain img where
    rs: "tf_image_resize (th, tw) im = Inr img" and out: "out = img_map (\<lambda>v. v / 255) (aug_fn tt img tr)"
    and l: "l' = l"
    by blast
  from tf_image_resize_Inr [OF rs] have pos: "0 < th" "0 < tw"
    and img: "img = resize_bilinear (nat th) (nat tw) (img_map (\<lambda>v. real (unat v)) im)"
    by blast+
  have "length (hd (hd (img_map (\<lambda>v. real (unat v)) im))) = c"
    using img_shape_hd_hd [of h w c "img_map (\<lambda>v. real (unat v)) im"] assms(1-3) by simp
  then have sh: "img_shape (nat th) (nat tw) c img"
    using resize_bilinear_shape [of "nat th" "nat tw" "img_map (\<lambda>v. real (unat v)) im"] img by simp
  have "img_shape (nat th) (nat tw) c (aug_fn tt img tr)"
  proof (cases tr)
    case True
    with sh assms(4) [OF True] show ?thesis by (simp add: aug_fn_def)
  next
    case False
    with sh show ?thesis by (simp add: aug_fn_def)
  qed
  with pos l show ?thesis unfolding out by simp
qed

lemma example_codec_ok: "codec_ok (decode_png (env_codecs example_env))"
  by (auto simp: codec_ok_def example_env_def img_shape_def)

lemma dataset_get_ds_origin:
  assumes "dataset_init env f r path ext npc seed tr target = (Inr d, r')"
    and "Inr x \<in> set (get_ds d)"
  shows "\<exists>im l. Inr (im, l) \<in> set (get_decode_ds d) \<and> process_image (train_transforms env) (im, l) target tr = Inr x"
proof -
  have "get_ds d = ds_map (\<lambda>x. process_image (train_transforms env) x target tr) (get_decode_ds d)"
    by (rule dataset_init_Inr [OF assms(1)])
  with assms(2) obtain y where y: "y \<in> set (get_decode_ds d)"
    and e: "Inr x = res_bind y (\<lambda>x. process_image (train_transforms env) x target tr)"
    by (auto simp: ds_map_def)
  from e [symmetric] obtain im l where "y = Inr (im, l)" and "process_image (train_transforms env) (im, l) target tr = Inr x"
    by auto
  with y show ?thesis by blast
qed

lemma dataset_png_sample_origin:
  assumes wf: "fs_wf f" and pat: "glob_literal path" "path \<noteq> []" "last path \<noteq> CHR ''/''"
    and d: "dataset_init env f r path ''png'' npc seed tr target = (Inr d, r')"
    and x: "Inr (img, lab) \<in> set (get_ds d)"
  shows "\<exists>q b im. q \<in> set (gfile_glob f (path_join path (''**/*.'' @ ''png''))) \<and>
    read_file f q = Inr b \<and> decode_png (env_codecs env) b = Inr im \<and>
    basename (dirname q) \<in> set (labels d) \<and> distinct (labels d) \<and>
    process_image (train_transforms env) (im, one_hot_eq (basename (dirname q)) (labels d)) target tr = Inr (img, lab)"
proof -
  have ext: "glob_literal ''png''" "CHR ''/'' \<notin> set ''png''" "CHR ''.'' \<notin> set ''png''"
    by (simp_all add: glob_literal_def)
  from dataset_get_ds_origin [OF d x] obtain im l where
    y: "Inr (im, l) \<in> set (get_decode_ds d)"
    and p: "process_image (train_transforms env) (im, l) target tr = Inr (img, lab)"
    by blast
  from dataset_decode_elem [OF wf pat ext(1) ext(2) ext(3) d y] obtain q where
    dist: "distinct (labels d)" and lq: "basename (dirname q) \<in> set (labels d)"
    and q: "q \<in> set (gfile_glob f (path_join path (''**/*.'' @ ''png'')))"
    and yq: "res_bind (read_file f q) (\<lambda>b. res_bind (codec_of_ext (env_codecs env) ''png'' b) (\<lambda>img.
               Inr (img, one_hot_eq (basename (dirname q)) (labels d)))) = Inr (im, l)"
    by (metis (no_types, lifting))
  from yq obtain b where "read_file f q = Inr b" "decode_png (env_codecs env) b = Inr im"
    and "l = one_hot_eq (basename (dirname q)) (labels d)"
    by (auto simp: codec_of_ext_def)
  with q lq dist p show ?thesis by blast
qed

lemma dataset_sample_wellformed:
  assumes wf: "fs_wf f" and pat: "glob_literal path" "path \<noteq> []" "last path \<noteq> CHR ''/''"
    and codec: "codec_ok (decode_png (env_codecs env))"
    and d: "dataset_init env f r path ''png'' npc seed False (th, tw) = (Inr d, r')"
    and x: "Inr (img, lab) \<in> set (get_ds d)"
  shows "img_shape (nat th) (nat tw) 3 img \<and> (\<forall>v \<in> img_values img. 0 \<le> v \<and> v \<le> 1) \<and>
         length lab = length (labels d) \<and> sum_list lab = 1"
proof -
  from dataset_png_sample_origin [OF wf pat d x] obtain q b im where
    dec: "decode_png (env_codecs env) b = Inr im" and lq: "basename (dirname q) \<in> set (labels d)"
    and dist: "distinct (labels d)"
    and p: "process_image (train_transforms env) (im, one_hot_eq (basename (dirname q)) (labels d)) (th, tw) False = Inr (img, lab)"
    by blast
  from codec dec obtain h w where sh: "0 < h" "0 < w" "img_shape h w 3 im"
    unfolding codec_ok_def by blast
  have "img_shape (nat th) (nat tw) 3 img \<and> lab = one_hot_eq (basename (dirname q)) (labels d)"
    using process_image_dims [OF sh(3) sh(1,2) _ p] by simp
  moreover have "\<forall>v \<in> img_values img. 0 \<le> v \<and> v \<le> 1"
    using process_image_values [OF sh(3) sh(1,2) _ p] by simp
  ultimately show ?thesis using lq dist by (simp add: sum_one_hot_eq)
qed

text \<open>Decoding a one-hot vector: the labels at the positions holding 1.\<close>

lemma filter_upt_single: "k < n \<Longrightarrow> filter (\<lambda>j. j = k) [0..<n] = [k]"
proof -
  assume k: "k < n"
  then have "[0..<n] = [0..<k] @ k # [Suc k..<n]"
    using upt_add_eq_append [of 0 k "n - k"] by (simp add: upt_conv_Cons)
  then show ?thesis by (simp add: filter_empty_conv)
qed

lemma one_hot_eq_decode:
  assumes "distinct ls" "l \<in> set ls"
  shows "map ((!) ls) (filter (\<lambda>j. one_hot_eq l ls ! j = 1) [0..<length ls]) = [l]"
proof -
  from assms(2) obtain k where k: "k < length ls" "ls ! k = l" by (metis in_set_conv_nth)
  have "filter (\<lambda>j. one_hot_eq l ls ! j = 1) [0..<length ls] = filter (\<lambda>j. j = k) [0..<length ls]"
    using assms(1) k by (intro filter_cong) (auto simp: one_hot_eq_nth nth_eq_iff_index_eq)
  with k show ?thesis by (simp add: filter_upt_single)
qed

lemma process_image_ok:
  "tf_image_resize t im = Inr img \<Longrightarrow> \<exists>x. process_image tt (im, l) t tr = Inr x"
  by (simp add: process_image_def)

subsection \<open>Properties of the dataset builder\<close>

text \<open>C2. Every successfully decoded element of \<open>decode_ds\<close> carries the one-hot
  encoding of the directory its file is in: that directory is one of the labels,
  and the label vector has one entry per label and sums to exactly 1.\<close>

theorem dataset_decode_one_hot:
  assumes "fs_wf f" "glob_literal path" "path \<noteq> []" "last path \<noteq> CHR ''/''"
    "glob_literal ext" "CHR ''/'' \<notin> set ext" "CHR ''.'' \<notin> set ext"
    and "dataset_init env f r path ext npc seed tr target = (Inr d, r')"
    and "Inr (img, lab) \<in> set (get_decode_ds d)"
  shows "\<exists>q \<in> set (gfile_glob f (path_join path (''**/*.'' @ ext))).
           basename (dirname q) \<in> set (labels d) \<and> lab = one_hot_eq (basename (dirname q)) (labels d) \<and>
           length lab = length (labels d) \<and> sum_list lab = 1"
proof -
  from dataset_decode_elem [OF assms] obtain q where
    dist: "distinct (labels d)" and q: "q \<in> set (gfile_glob f (path_join path (''**/*.'' @ ext)))"
    and lq: "basename (dirname q) \<in> set (labels d)"
    and y: "Inr (img, lab) = res_bind (read_file f q) (\<lambda>b. res_bind (codec_of_ext (env_codecs env) ext b)
               (\<lambda>img. Inr (img, one_hot_eq (basename (dirname q)) (labels d))))"
    by blast
  from y have "lab = one_hot_eq (basename (dirname q)) (labels d)"
    by (auto simp: res_bind_def split: sum.splits)
  with q lq dist show ?thesis by (auto simp: sum_one_hot_eq)
qed

theorem dataset_decode_one_hot_witness:
  "\<exists>q \<in> set (gfile_glob example_fs (path_join ''data/Test'' (''**/*.'' @ ''png''))).
     basename (dirname q) \<in> set (labels example_ds) \<and>
     [1, 0, 0] = one_hot_eq (basename (dirname q)) (labels example_ds) \<and>
     length [1, 0, 0 :: real] = length (labels example_ds) \<and> sum_list [1, 0, 0 :: real] = 1"
  by (rule dataset_decode_one_hot [OF example_fs_wf example_pattern example_dataset [of undefined],
        of "[[[0, 128, 255]]]"]) (simp add: get_decode_ds_def example_ds_def)

text \<open>C7. The files the constructor reads are exactly the entries
  \<open>path/d/n.ext\<close> where \<open>d\<close> and \<open>n\<close> contain no slash: the pattern
  \<open>'**/*.ext'\<close> reaches the files two levels below the root and no others.\<close>

theorem read_files_two_levels:
  assumes "glob_literal path" "path \<noteq> []" "last path \<noteq> CHR ''/''" "glob_literal ext"
    and "read_files env f path ext shuf r = (StringVec files, r')"
  shows "q \<in> set files \<longleftrightarrow> q \<in> fst ` set (fs_entries f) \<and>
    (\<exists>d n. q = path @ ''/'' @ d @ ''/'' @ n @ ''.'' @ ext \<and> CHR ''/'' \<notin> set d \<and> CHR ''/'' \<notin> set n)"
proof -
  from read_files_perm [OF assms(5)]
  have "set files = set (gfile_glob f (path_join path (''**/*.'' @ ext)))"
    by (metis mset_eq_setD)
  then show ?thesis using gfile_glob_dataset_files [OF assms(1-4)] by simp
qed

theorem read_files_two_levels_witness:
  "''data/Test/cat/a.png'' \<in> fst ` set (fs_entries example_fs) \<and>
   (\<exists>d n. ''data/Test/cat/a.png'' = ''data/Test'' @ ''/'' @ d @ ''/'' @ n @ ''.'' @ ''png'' \<and>
      CHR ''/'' \<notin> set d \<and> CHR ''/'' \<notin> set n)"
proof -
  have rf: "read_files example_env example_fs ''data/Test'' ''png'' False \<lparr>global_seed = None, op_count = 0\<rparr> =
      (StringVec [''data/Test/cat/a.png'', ''data/Test/dog/b.png''], \<lparr>global_seed = None, op_count = 0\<rparr>)"
    by (simp add: example_simps)
  show ?thesis
    using read_files_two_levels [OF example_pattern(1-4) rf, of "''data/Test/cat/a.png''"] by simp
qed

text \<open>C8. The labels are the names \<open>tf.io.gfile.listdir\<close> returns for the root,
  sorted, without duplicates.\<close>

theorem dataset_labels_sorted:
  assumes "fs_wf f" "path \<noteq> []" "dataset_init env f r path ext npc seed tr target = (Inr d, r')"
  shows "\<exists>names. gfile_listdir f path = Inr names \<and> set (labels d) = set names \<and>
           sorted (labels d) \<and> distinct (labels d)"
proof -
  obtain names where ln: "gfile_listdir f path = Inr names" and lb: "labels d = sort names"
    by (rule dataset_init_labels [OF assms(3)])
  with gfile_listdir_distinct [OF assms(1,2) ln] show ?thesis by auto
qed

theorem dataset_labels_sorted_witness:
  "\<exists>names. gfile_listdir example_fs ''data/Test'' = Inr names \<and> set (labels example_ds) = set names \<and>
     sorted (labels example_ds) \<and> distinct (labels example_ds)"
  by (rule dataset_labels_sorted [OF example_fs_wf _ example_dataset [of undefined]]) simp

text \<open>C28. A file directly under the root directory is a label, although only
  subdirectories name classes: \<open>listdir\<close> lists files too.\<close>

theorem dataset_root_file_is_label:
  assumes "(path @ ''/'' @ n, File b) \<in> set (fs_entries f)" "CHR ''/'' \<notin> set n"
    and "dataset_init env f r path ext npc seed tr target = (Inr d, r')"
  shows "n \<in> set (labels d)"
proof -
  obtain names where ln: "gfile_listdir f path = Inr names" and lb: "labels d = sort names"
    by (rule dataset_init_labels [OF assms(3)])
  from ln have "names = map basename (filter (\<lambda>q. dirname q = path) (map fst (fs_entries f)))"
    by (simp add: gfile_listdir_def split: if_splits)
  moreover have "dirname (path @ ''/'' @ n) = path \<and> basename (path @ ''/'' @ n) = n"
    using basename_dirname_split [OF assms(2)] by simp
  ultimately have "n \<in> set names" using assms(1) by force
  with lb show ?thesis by simp
qed

theorem dataset_root_file_is_label_witness:
  "''notes.txt'' \<in> set (labels example_ds)"
  by (rule dataset_root_file_is_label [OF _ _ example_dataset [of undefined], where b = "[3]"])
    (simp_all add: example_fs_def)

text \<open>C23. Construction fails only where \<open>__init__\<close> runs something that can raise:
  when \<open>listdir\<close> succeeds, \<open>glob\<close> lists some file and \<open>num_parallel_calls\<close> is
  positive or \<open>AUTOTUNE\<close>, the dataset is built, whatever the files hold;
  unreadable or corrupt files fail later, at iteration.\<close>

theorem dataset_init_succeeds:
  assumes "gfile_listdir f path = Inr names" "gfile_glob f (path_join path (''**/*.'' @ ext)) \<noteq> []"
    and "npc = AUTOTUNE \<or> 0 < npc"
  shows "\<exists>d. fst (dataset_init env f r path ext npc seed tr target) = Inr d"
  using assms
  by (auto simp: dataset_init_def read_files_def shuffle_tensor_def convert_to_tensor_def map_files_def
      tf_random_shuffle_def Let_def split: prod.splits)

theorem dataset_init_succeeds_witness:
  "\<exists>d. fst (dataset_init corrupt_env example_fs \<lparr>global_seed = None, op_count = 0\<rparr> ''data/Test'' ''png'' (-1) 1 False (224, 224)) = Inr d"
  by (rule dataset_init_succeeds) (simp_all add: example_simps)

text \<open>C24. An invalid \<open>num_parallel_calls\<close> (0, or below \<open>AUTOTUNE = -1\<close>) is not
  rejected by \<open>__init__\<close> itself: the constructor runs as with \<open>AUTOTUNE\<close>,
  random state and earlier errors included, and where that would build the
  dataset, the first \<open>Dataset.map\<close> raises \<open>InvalidArgumentError\<close> instead.\<close>

theorem dataset_invalid_parallel_calls:
  assumes "\<not> (npc = AUTOTUNE \<or> 0 < npc)"
  shows "dataset_init env f r path ext npc seed tr target =
     (res_bind (fst (dataset_init env f r path ext AUTOTUNE seed tr target))
        (\<lambda>_. Inl (InvalidArgumentError ''num_parallel_calls must be greater than zero.'')),
      snd (dataset_init env f r path ext AUTOTUNE seed tr target))"
  using assms
  by (simp add: dataset_init_def map_files_def Let_def split: prod.split sum.split files_tensor.split)

theorem dataset_invalid_parallel_calls_witness:
  "dataset_init example_env example_fs \<lparr>global_seed = None, op_count = 0\<rparr> ''data/Test'' ''png'' 0 1 False (1, 1) =
   (Inl (InvalidArgumentError ''num_parallel_calls must be greater than zero.''), \<lparr>global_seed = Some 1, op_count = 1\<rparr>)"
  using dataset_invalid_parallel_calls [of 0 example_env example_fs "\<lparr>global_seed = None, op_count = 0\<rparr>"
      "''data/Test''" "''png''" 1 False "(1, 1)"]
    example_dataset [of "\<lparr>global_seed = None, op_count = 0\<rparr>"]
  by (simp add: AUTOTUNE_def)

text \<open>C15. With a positive seed the constructor's result and the random state it
  leaves do not depend on the random state it starts from.\<close>

theorem dataset_init_deterministic:
  assumes "0 < seed"
  shows "dataset_init env f r1 path ext npc seed tr target = dataset_init env f r2 path ext npc seed tr target"
  using assms by (simp add: dataset_init_def set_seed_const)

theorem dataset_init_deterministic_witness:
  "dataset_init example_env example_fs \<lparr>global_seed = None, op_count = 0\<rparr> ''data/Test'' ''png'' (-1) 1 False (1, 1) =
   dataset_init example_env example_fs \<lparr>global_seed = Some 7, op_count = 5\<rparr> ''data/Test'' ''png'' (-1) 1 False (1, 1)"
  by (rule dataset_init_deterministic) simp

text \<open>C22. With \<open>random_seed <= 0\<close> nothing is shuffled and the random state is
  untouched: the files are decoded in the order \<open>glob\<close> lists them.\<close>

theorem dataset_unseeded_glob_order:
  assumes "seed \<le> 0" "dataset_init env f r path ext npc seed tr target = (Inr d, r')"
  shows "r' = r \<and> \<not> shuffle d \<and>
    get_decode_ds d = map (\<lambda>p. decode_image (env_codecs env) f p (labels d))
                          (gfile_glob f (path_join path (''**/*.'' @ ext)))"
proof -
  obtain names files where
    "gfile_listdir f path = Inr names"
    and rf: "read_files env f path ext (0 < seed) (if 0 < seed then set_seed seed r else r) = (StringVec files, r')"
    and "labels d = sort names"
    and "get_decode_ds d = map (\<lambda>p. decode_image (env_codecs env) f p (sort names)) files"
    and "get_ds d = ds_map (\<lambda>x. process_image (train_transforms env) x target tr) (get_decode_ds d)"
    and "shuffle d = (0 < seed)" "is_training d = tr" "target_shape d = target"
    by (rule dataset_init_Inr [OF assms(2)])
  moreover from rf assms(1) have "read_files env f path ext False r = (StringVec files, r')" by simp
  ultimately show ?thesis using assms(1) read_files_perm by fastforce
qed

theorem dataset_unseeded_glob_order_witness:
  "\<lparr>global_seed = None, op_count = 0\<rparr> = \<lparr>global_seed = None, op_count = 0\<rparr> \<and> \<not> shuffle (example_ds\<lparr>random_seed := 0, shuffle := False\<rparr>) \<and>
   get_decode_ds (example_ds\<lparr>random_seed := 0, shuffle := False\<rparr>) =
     map (\<lambda>p. decode_image (env_codecs example_env) example_fs p [''cat'', ''dog'', ''notes.txt''])
     (gfile_glob example_fs (path_join ''data/Test'' (''**/*.'' @ ''png'')))"
  using dataset_unseeded_glob_order [OF _ example_dataset_unseeded [of "\<lparr>global_seed = None, op_count = 0\<rparr>"]] by (simp add: example_ds_def)

text \<open>C29. When the glob matches no file the constructor raises \<open>TypeError\<close>:
  the empty Python list converts to a \<open>float32\<close> tensor, which
  \<open>tf.io.read_file\<close> refuses when \<open>map\<close> traces \<open>decode_image\<close>.\<close>

theorem dataset_empty_glob_type_error:
  assumes "gfile_listdir f path = Inr names" "gfile_glob f (path_join path (''**/*.'' @ ext)) = []"
  shows "\<exists>msg. fst (dataset_init env f r path ext npc seed tr target) = Inl (TypeError msg)"
  using assms
  by (simp add: dataset_init_def read_files_def shuffle_tensor_def convert_to_tensor_def map_files_def
      Let_def split: prod.splits)

theorem dataset_empty_glob_type_error_witness:
  "\<exists>msg. fst (dataset_init example_env example_fs \<lparr>global_seed = None, op_count = 0\<rparr>
      ''data/Test'' ''jpg'' (-1) 1 False (1, 1)) = Inl (TypeError msg)"
  by (rule dataset_empty_glob_type_error) (simp_all add: example_simps)

text \<open>C30. A missing root directory raises \<open>NotFoundError\<close> from \<open>listdir\<close>, after
  \<open>tf.random.set_seed\<close> has already changed the global random state. The root
  and the file system's paths are canonical (\<open>posixpath.normpath\<close> form), so
  that no entry names the root under another spelling.\<close>

theorem dataset_missing_root_error:
  assumes "canonical_path path" "fs_canonical f" "path \<notin> fst ` set (fs_entries f)"
  shows "dataset_init env f r path ext npc seed tr target =
           (Inl (NotFoundError path), if 0 < seed then set_seed seed r else r)"
proof -
  from assms(3) have "fs_lookup f path = None"
    by (simp add: fs_lookup_def map_of_eq_None_iff)
  then show ?thesis by (simp add: dataset_init_def gfile_listdir_def)
qed

theorem dataset_missing_root_error_witness:
  "dataset_init example_env example_fs \<lparr>global_seed = None, op_count = 3\<rparr> ''data/Train'' ''png'' (-1) 1 True (1, 1) =
     (Inl (NotFoundError ''data/Train''), \<lparr>global_seed = Some 1, op_count = 0\<rparr>)"
  using dataset_missing_root_error [of "''data/Train''" example_fs]
  by (simp add: example_fs_def canonical_path_def fs_canonical_def set_seed_def)

text \<open>C26. A dataset built with \<open>is_training=False\<close> does not depend on
  \<open>train_transforms\<close>: no augmentation is applied in evaluation mode.\<close>

theorem dataset_eval_ignores_transforms:
  "dataset_init (env\<lparr>train_transforms := t1\<rparr>) f r path ext npc seed False target =
   dataset_init (env\<lparr>train_transforms := t2\<rparr>) f r path ext npc seed False target"
  by (simp add: dataset_init_def read_files_transforms map_files_eval_transforms split: sum.split)

text \<open>C10. \<open>process_image\<close> yields pixel values in [0, 1] from a decoded image of
  positive size, in evaluation mode and in training mode whenever
  \<open>train_transforms\<close> keeps values in [0, 255].\<close>

theorem process_image_range:
  assumes "img_shape h w c im" "0 < h" "0 < w"
    and "tr \<Longrightarrow> \<forall>x. (\<forall>v \<in> img_values x. 0 \<le> v \<and> v \<le> 255) \<longrightarrow> (\<forall>v \<in> img_values (tt x). 0 \<le> v \<and> v \<le> 255)"
    and "process_image tt (im, l) t tr = Inr (out, l')"
  shows "\<forall>v \<in> img_values out. 0 \<le> v \<and> v \<le> 1"
  using assms by (rule process_image_values)

theorem process_image_range_witness:
  "process_image (\<lambda>x. x) ([[[0, 128, 255]]], [1]) (1, 1) False = Inr ([[[0, 128 / 255, 1]]], [1]) \<and>
   0 \<le> (128 / 255 :: real) \<and> (128 / 255 :: real) \<le> 1"
proof -
  have p: "process_image (\<lambda>x. x) ([[[0, 128, 255]]], [1]) (1, 1) False = Inr ([[[0, 128 / 255, 1]]], [1])"
    by (simp add: example_simps)
  have "\<forall>v \<in> img_values [[[0, 128 / 255, 1 :: real]]]. 0 \<le> v \<and> v \<le> 1"
    using p by (rule process_image_range [of 1 1 3, rotated 4]) (simp_all add: img_shape_def)
  with p show ?thesis by (simp add: img_values_def)
qed

text \<open>C11. \<open>process_image\<close> resizes to the target shape and keeps the label: the
  result has \<open>target_size\<close> rows and columns and the decoded image's channels
  (in training mode, given that \<open>train_transforms\<close> keeps the shape).\<close>

theorem process_image_shape:
  assumes "img_shape h w c im" "0 < h" "0 < w"
    and "tr \<Longrightarrow> \<forall>x. img_shape (nat th) (nat tw) c x \<longrightarrow> img_shape (nat th) (nat tw) c (tt x)"
    and "process_image tt (im, l) (th, tw) tr = Inr (out, l')"
  shows "0 < th \<and> 0 < tw \<and> img_shape (nat th) (nat tw) c out \<and> l' = l"
  using assms by (rule process_image_dims)

theorem process_image_shape_witness:
  "0 < (1::int) \<and> 0 < (1::int) \<and> img_shape (nat 1) (nat 1) 3 [[[0, 128 / 255, 1 :: real]]] \<and> [1 :: real] = [1]"
proof -
  have "process_image (\<lambda>x. x) ([[[0, 128, 255]]], [1]) (1, 1) False = Inr ([[[0, 128 / 255, 1]]], [1])"
    by (simp add: example_simps)
  then show ?thesis
    by (rule process_image_shape [of 1 1 3, rotated 4]) (simp_all add: img_shape_def)
qed

text \<open>C32. \<open>decode_jpeg\<close> is used only for the extensions \<open>jpg\<close> and \<open>jpeg\<close>,
  compared case-sensitively: any other extension, \<open>JPG\<close> included, is decoded as PNG.\<close>

theorem decode_image_jpeg_only_lowercase:
  assumes "py_index (split_on CHR ''.'' path) (-1) = Inr e" "e \<noteq> ''jpg''" "e \<noteq> ''jpeg''"
  shows "decode_image (cs\<lparr>decode_jpeg := dj\<rparr>) f path lbls = decode_image cs f path lbls"
  using assms by (simp add: decode_image_def cong: if_cong)

theorem decode_image_jpeg_only_lowercase_witness:
  "decode_image ((env_codecs example_env)\<lparr>decode_jpeg := (\<lambda>b. Inr [[[9, 9, 9]]])\<rparr>)
     \<lparr>fs_entries = [(''data/Test/cat/a.JPG'', File [1])]\<rparr> ''data/Test/cat/a.JPG'' [''cat'']
   = decode_image (env_codecs example_env)
     \<lparr>fs_entries = [(''data/Test/cat/a.JPG'', File [1])]\<rparr> ''data/Test/cat/a.JPG'' [''cat'']"
  by (rule decode_image_jpeg_only_lowercase [of _ "''JPG''"]) simp_all

text \<open>C5. The constructor reads each file \<open>glob\<close> lists exactly once, in some
  order, and \<open>ds\<close> is \<open>process_image\<close> mapped over \<open>decode_ds\<close>.\<close>

theorem dataset_reads_each_file_once:
  assumes "dataset_init env f r path ext npc seed tr target = (Inr d, r')"
  shows "\<exists>files. mset files = mset (gfile_glob f (path_join path (''**/*.'' @ ext))) \<and>
    get_decode_ds d = map (\<lambda>p. decode_image (env_codecs env) f p (labels d)) files \<and>
    get_ds d = ds_map (\<lambda>x. process_image (train_transforms env) x target tr) (get_decode_ds d)"
proof -
  obtain names files where
    "gfile_listdir f path = Inr names"
    and rf: "read_files env f path ext (0 < seed) (if 0 < seed then set_seed seed r else r) = (StringVec files, r')"
    and "labels d = sort names"
    and "get_decode_ds d = map (\<lambda>p. decode_image (env_codecs env) f p (sort names)) files"
    and "get_ds d = ds_map (\<lambda>x. process_image (train_transforms env) x target tr) (get_decode_ds d)"
    and "shuffle d = (0 < seed)" "is_training d = tr" "target_shape d = target"
    by (rule dataset_init_Inr [OF assms])
  with read_files_perm [OF rf] show ?thesis by auto
qed

theorem dataset_reads_each_file_once_witness:
  "\<exists>files. mset files = mset (gfile_glob example_fs (path_join ''data/Test'' (''**/*.'' @ ''png''))) \<and>
    get_decode_ds example_ds = map (\<lambda>p. decode_image (env_codecs example_env) example_fs p (labels example_ds)) files \<and>
    get_ds example_ds = ds_map (\<lambda>x. process_image (train_transforms example_env) x (1, 1) False) (get_decode_ds example_ds)"
  by (rule dataset_reads_each_file_once [OF example_dataset [of undefined]])

text \<open>C16. With a positive seed the files are decoded in the order the shuffle
  kernel gives for the first operation seed drawn after \<open>set_seed(seed)\<close>, and
  the random state afterwards has the global seed set and one operation seed
  drawn.\<close>

theorem dataset_seeded_shuffle:
  assumes "0 < seed" "dataset_init env f r path ext npc seed tr target = (Inr d, r')"
  shows "get_decode_ds d = map (\<lambda>p. decode_image (env_codecs env) f p (labels d))
           (random_shuffle_kernel (env_prng env seed 0) (gfile_glob f (path_join path (''**/*.'' @ ext)))) \<and>
         r' = \<lparr>global_seed = Some seed, op_count = 1\<rparr>"
proof -
  obtain names files where
    "gfile_listdir f path = Inr names"
    and rf: "read_files env f path ext (0 < seed) (if 0 < seed then set_seed seed r else r) = (StringVec files, r')"
    and "labels d = sort names"
    and "get_decode_ds d = map (\<lambda>p. decode_image (env_codecs env) f p (sort names)) files"
    and "get_ds d = ds_map (\<lambda>x. process_image (train_transforms env) x target tr) (get_decode_ds d)"
    and "shuffle d = (0 < seed)" "is_training d = tr" "target_shape d = target"
    by (rule dataset_init_Inr [OF assms(2)])
  moreover from rf assms(1) have
    "files = random_shuffle_kernel (env_prng env seed 0) (gfile_glob f (path_join path (''**/*.'' @ ext))) \<and>
     r' = \<lparr>global_seed = Some seed, op_count = 1\<rparr>"
    by (auto simp: read_files_def shuffle_tensor_def convert_to_tensor_def tf_random_shuffle_def
        next_op_stream_def set_seed_const Let_def split: if_splits)
  ultimately show ?thesis by simp
qed

theorem dataset_seeded_shuffle_witness:
  "get_decode_ds example_ds = map (\<lambda>p. decode_image (env_codecs example_env) example_fs p (labels example_ds))
     (random_shuffle_kernel (env_prng example_env 1 0) (gfile_glob example_fs (path_join ''data/Test'' (''**/*.'' @ ''png'')))) \<and>
   \<lparr>global_seed = Some 1, op_count = 1\<rparr> = \<lparr>global_seed = Some (1::int), op_count = 1\<rparr>"
  by (rule dataset_seeded_shuffle [OF _ example_dataset [of "\<lparr>global_seed = None, op_count = 0\<rparr>"]]) simp

text \<open>C6. Iterating the processed dataset succeeds, with one sample per globbed
  file, when every file reads and decodes and the target size is positive: the
  pipeline adds no failure of its own.\<close>

theorem dataset_iterate_succeeds:
  assumes "fs_wf f" "glob_literal path" "path \<noteq> []" "last path \<noteq> CHR ''/''"
    and "codec_ok (decode_png (env_codecs env))"
    and "dataset_init env f r path ''png'' npc seed tr (th, tw) = (Inr d, r')" "0 < th" "0 < tw"
    and "\<forall>q \<in> set (gfile_glob f (path_join path (''**/*.'' @ ''png''))).
           \<exists>b im. read_file f q = Inr b \<and> decode_png (env_codecs env) b = Inr im"
  shows "\<exists>xs. ds_iterate (get_ds d) = Inr xs \<and>
           length xs = length (gfile_glob f (path_join path (''**/*.'' @ ''png'')))"
proof -
  have ext: "glob_literal ''png''" "CHR ''/'' \<notin> set ''png''" "CHR ''.'' \<notin> set ''png''"
    by (simp_all add: glob_literal_def)
  obtain names files where
    "gfile_listdir f path = Inr names"
    and rf: "read_files env f path ''png'' (0 < seed) (if 0 < seed then set_seed seed r else r) = (StringVec files, r')"
    and "labels d = sort names"
    and dd: "get_decode_ds d = map (\<lambda>p. decode_image (env_codecs env) f p (sort names)) files"
    and gd: "get_ds d = ds_map (\<lambda>x. process_image (train_transforms env) x (th, tw) tr) (get_decode_ds d)"
    and "shuffle d = (0 < seed)" "is_training d = tr" "target_shape d = (th, tw)"
    by (rule dataset_init_Inr [OF assms(6)])
  have ok: "\<exists>x. y = Inr x" if y: "y \<in> set (get_ds d)" for y
  proof -
    from y gd obtain z where z: "z \<in> set (get_decode_ds d)"
      and yz: "y = res_bind z (\<lambda>x. process_image (train_transforms env) x (th, tw) tr)"
      by (auto simp: ds_map_def)
    from dataset_decode_elem [OF assms(1-4) ext assms(6) z] obtain q where
      q: "q \<in> set (gfile_glob f (path_join path (''**/*.'' @ ''png'')))"
      and zq: "z = res_bind (read_file f q) (\<lambda>b. res_bind (codec_of_ext (env_codecs env) ''png'' b) (\<lambda>img.
             Inr (img, one_hot_eq (basename (dirname q)) (labels d))))"
      by blast
    from assms(9) q obtain b im where rb: "read_file f q = Inr b" and dec: "decode_png (env_codecs env) b = Inr im"
      by blast
    from assms(5) dec obtain h w where "0 < h" "0 < w" "img_shape h w 3 im"
      unfolding codec_ok_def by blast
    then obtain out where "tf_image_resize (th, tw) im = Inr out"
      using tf_image_resize_ok [OF assms(7,8), of h w 3 im] by auto
    then obtain x where "process_image (train_transforms env) (im, one_hot_eq (basename (dirname q)) (labels d)) (th, tw) tr = Inr x"
      using process_image_ok by blast
    with yz zq rb dec show ?thesis by (simp add: codec_of_ext_def)
  qed
  from res_list_all_Inr [of "get_ds d"] ok obtain xs where
    "res_list (get_ds d) = Inr xs" "length xs = length (get_ds d)"
    by blast
  moreover have "length files = length (gfile_glob f (path_join path (''**/*.'' @ ''png'')))"
    using read_files_perm [OF rf] by (metis size_mset)
  ultimately show ?thesis by (simp add: ds_iterate_def gd dd ds_map_def)
qed

theorem dataset_iterate_succeeds_witness:
  "\<exists>xs. ds_iterate (get_ds example_ds) = Inr xs \<and>
     length xs = length (gfile_glob example_fs (path_join ''data/Test'' (''**/*.'' @ ''png'')))"
  by (rule dataset_iterate_succeeds [OF example_fs_wf _ _ _ example_codec_ok
      example_dataset [of "\<lparr>global_seed = None, op_count = 0\<rparr>"]])
    (simp_all add: glob_literal_def example_simps)

text \<open>C12. Processing an image already of the target size, with at least one
  channel, involves no interpolation: in evaluation mode \<open>process_image\<close> only
  divides every pixel value by 255.\<close>

theorem process_image_same_size:
  assumes "img_shape h w c im" "0 < h" "0 < w" "0 < c"
  shows "process_image tt (im, l) (int h, int w) False = Inr (img_map (\<lambda>v. real (unat v) / 255) im, l)"
  using tf_image_resize_same [OF assms]
  by (simp add: process_image_eval_mode img_map_def comp_def)

theorem process_image_same_size_witness:
  "process_image (\<lambda>x. x) ([[[0, 128, 255], [1, 2, 3]]], [1]) (int 1, int 2) False =
   Inr (img_map (\<lambda>v. real (unat v) / 255) [[[0, 128, 255], [1, 2, 3 :: 8 word]]], [1])"
  by (rule process_image_same_size [of 1 2 3]) (simp_all add: img_shape_def)

end
