(* ===== verification/DatasetSamples.thy ===== *)
theory DatasetSamples
  imports Dataset
begin

text \<open>
  Properties of the samples a \<open>Dataset\<close> yields, over the whole construction
  (\<open>dataset_init\<close>, \<open>decode_image\<close>, \<open>process_image\<close>): their typing (every
  sample of a PNG dataset has the same image and label shapes, which
  \<open>Dataset.batch\<close> requires of the elements it stacks) and the round trip of
  the label, from the file's directory through its one-hot vector and back.
\<close>

text \<open>C13. Typing: every sample of a PNG dataset that computes is an image of shape
  \<open>target_size x 3\<close> with a label vector of one entry per label, so all samples
  have the same shapes and \<open>batch\<close> can stack them (in training mode, given
  that \<open>train_transforms\<close> keeps the shape).\<close>

theorem dataset_samples_typed:
  assumes "fs_wf f" "glob_literal path" "path \<noteq> []" "last path \<noteq> CHR ''/''"
    and codec: "codec_ok (decode_png (env_codecs env))"
    and tt: "tr \<Longrightarrow> \<forall>x. img_shape (nat th) (nat tw) 3 x \<longrightarrow> img_shape (nat th) (nat tw) 3 (train_transforms env x)"
    and d: "dataset_init env f r path ''png'' npc seed tr (th, tw) = (Inr dt, r')"
    and x: "Inr (img, lab) \<in> set (get_ds dt)"
  shows "img_shape (nat th) (nat tw) 3 img \<and> length lab = length (labels dt)"
proof -
  from dataset_png_sample_origin [OF assms(1-4) d x] obtain q b im where
    dec: "decode_png (env_codecs env) b = Inr im"
    and p: "process_image (train_transforms env) (im, one_hot_eq (basename (dirname q)) (labels dt)) (th, tw) tr = Inr (img, lab)"
    by blast
  from codec dec obtain h w where sh: "0 < h" "0 < w" "img_shape h w 3 im"
    unfolding codec_ok_def by blast
  show ?thesis using process_image_dims [OF sh(3) sh(1,2) tt p] by simp
qed

theorem dataset_samples_typed_witness:
  "img_shape (nat 1) (nat 1) 3 [[[0, 128 / 255, 1 :: real]]] \<and> length [1, 0, 0 :: real] = length (labels example_ds)"
  by (rule dataset_samples_typed [OF example_fs_wf _ _ _ example_codec_ok _
      example_dataset [of "\<lparr>global_seed = None, op_count = 0\<rparr>"]])
    (simp_all add: glob_literal_def get_ds_def example_ds_def)

text \<open>C3. Round trip of the label: a decoded sample comes from a file
  \<open>path/c/n.ext\<close>, and reading its label vector back (the labels at the
  positions holding 1) gives exactly \<open>c\<close>.\<close>

theorem dataset_label_roundtrip:
  assumes wf: "fs_wf f" and pat: "glob_literal path" "path \<noteq> []" "last path \<noteq> CHR ''/''"
    "glob_literal ext" "CHR ''/'' \<notin> set ext" "CHR ''.'' \<notin> set ext"
    and d: "dataset_init env f r path ext npc seed tr target = (Inr dt, r')"
    and x: "Inr (img, lab) \<in> set (get_decode_ds dt)"
  shows "\<exists>c n. path @ ''/'' @ c @ ''/'' @ n @ ''.'' @ ext \<in> set (gfile_glob f (path_join path (''**/*.'' @ ext))) \<and>
           map ((!) (labels dt)) (filter (\<lambda>j. lab ! j = 1) [0..<length lab]) = [c]"
proof -
  from dataset_decode_elem [OF wf pat d x] obtain q where
    dist: "distinct (labels dt)" and q: "q \<in> set (gfile_glob f (path_join path (''**/*.'' @ ext)))"
    and lq: "basename (dirname q) \<in> set (labels dt)"
    and y: "Inr (img, lab) = res_bind (read_file f q) (\<lambda>b. res_bind (codec_of_ext (env_codecs env) ext b)
               (\<lambda>img. Inr (img, one_hot_eq (basename (dirname q)) (labels dt))))"
    by blast
  from y have lab: "lab = one_hot_eq (basename (dirname q)) (labels dt)"
    by (auto simp: res_bind_def split: sum.splits)
  from q gfile_glob_dataset_files [OF pat(1-4)] obtain c n where
    qcn: "q = path @ ''/'' @ c @ ''/'' @ n @ ''.'' @ ext" and cn: "CHR ''/'' \<notin> set c" "CHR ''/'' \<notin> set n"
    by blast
  have "basename (dirname q) = c"
    unfolding qcn using basename_dirname_dataset_path [OF cn pat(5)] .
  with q qcn lab lq dist show ?thesis
    using one_hot_eq_decode [of "labels dt" c] by auto
qed

theorem dataset_label_roundtrip_witness:
  "\<exists>c n. ''data/Test'' @ ''/'' @ c @ ''/'' @ n @ ''.'' @ ''png'' \<in>
      set (gfile_glob example_fs (path_join ''data/Test'' (''**/*.'' @ ''png''))) \<and>
    map ((!) (labels example_ds)) (filter (\<lambda>j. [0, 1, 0 :: real] ! j = 1) [0..<length [0, 1, 0 :: real]]) = [c]"
  by (rule dataset_label_roundtrip [OF example_fs_wf example_pattern
      example_dataset [of "\<lparr>global_seed = None, op_count = 0\<rparr>"], of "[[[0, 128, 255]]]"])
    (simp add: get_decode_ds_def example_ds_def)

lemma read_files_nonempty:
  assumes rf: "read_files env f path ext shuf r = (StringVec files, r')"
  shows "files \<noteq> []"
proof -
  have "gfile_glob f (path_join path (''**/*.'' @ ext)) \<noteq> []"
    using rf by (auto simp: read_files_def shuffle_tensor_def convert_to_tensor_def Let_def
                      split: if_splits prod.splits)
  with read_files_perm [OF rf] show ?thesis by auto
qed

lemma res_bind_map_sum_id: "res_bind (map_sum id g m) k = res_bind m (\<lambda>x. k (g x))"
  by (cases m) simp_all

lemma map_sum_id_res_bind: "map_sum id h (res_bind m k) = res_bind m (\<lambda>x. map_sum id h (k x))"
  by (cases m) simp_all

lemma process_image_nonpositive:
  "th \<le> 0 \<or> tw \<le> 0 \<Longrightarrow>
   process_image tt x (th, tw) tr = Inl (InvalidArgumentError ''output dimensions must be positive'')"
  by (cases x) (auto simp: process_image_def tf_image_resize_def)

lemma map_files_nonpositive:
  assumes "th \<le> 0 \<or> tw \<le> 0"
  shows "map_files env f t lbls npc (th, tw) tr =
    map_sum id (\<lambda>(dec, proc). (dec, map (\<lambda>y. res_bind y (\<lambda>_. Inl (InvalidArgumentError ''output dimensions must be positive''))) dec))
      (map_files env f t lbls npc (1, 1) tr)"
  using assms
  by (cases t) (simp_all add: map_files_def ds_map_parallel_def parallel_calls_check_def ds_map_def
      process_image_nonpositive comp_def)

text \<open>C25. Boundary: a target size with a side \<open><= 0\<close> is not checked by the
  constructor: it runs exactly as with a positive target (errors, labels,
  decoded files and random state alike), except that every sample of \<open>ds\<close>
  fails with its decoding error or with \<open>InvalidArgumentError\<close> from
  \<open>tf.image.resize\<close>; so iterating a constructed dataset raises.\<close>

theorem dataset_nonpositive_target:
  assumes "th \<le> 0 \<or> tw \<le> 0"
  shows "dataset_init env f r path ext npc seed tr (th, tw) =
           (map_sum id (\<lambda>d. d\<lparr>target_shape := (th, tw),
              ds := map (\<lambda>y. res_bind y (\<lambda>_. Inl (InvalidArgumentError ''output dimensions must be positive'')))
                      (get_decode_ds d)\<rparr>)
              (fst (dataset_init env f r path ext npc seed tr (1, 1))),
            snd (dataset_init env f r path ext npc seed tr (1, 1))) \<and>
         (\<forall>dt. fst (dataset_init env f r path ext npc seed tr (th, tw)) = Inr dt \<longrightarrow>
              (\<exists>e. ds_iterate (get_ds dt) = Inl e))"
proof (intro conjI allI impI)
  show "dataset_init env f r path ext npc seed tr (th, tw) =
           (map_sum id (\<lambda>d. d\<lparr>target_shape := (th, tw),
              ds := map (\<lambda>y. res_bind y (\<lambda>_. Inl (InvalidArgumentError ''output dimensions must be positive'')))
                      (get_decode_ds d)\<rparr>)
              (fst (dataset_init env f r path ext npc seed tr (1, 1))),
            snd (dataset_init env f r path ext npc seed tr (1, 1)))"
    using assms
    by (simp add: dataset_init_def Let_def map_files_nonpositive get_decode_ds_def
        res_bind_map_sum_id map_sum_id_res_bind split_def split: prod.split sum.split)
next
  fix dt
  assume "fst (dataset_init env f r path ext npc seed tr (th, tw)) = Inr dt"
  then have d: "dataset_init env f r path ext npc seed tr (th, tw) =
                (Inr dt, snd (dataset_init env f r path ext npc seed tr (th, tw)))"
    by (metis prod.collapse)
  obtain names files where
    rf: "read_files env f path ext (0 < seed) (if 0 < seed then set_seed seed r else r) =
         (StringVec files, snd (dataset_init env f r path ext npc seed tr (th, tw)))"
    and dd: "get_decode_ds dt = map (\<lambda>p. decode_image (env_codecs env) f p (sort names)) files"
    and gd: "get_ds dt = ds_map (\<lambda>x. process_image (train_transforms env) x (th, tw) tr) (get_decode_ds dt)"
    by (rule dataset_init_Inr [OF d])
  from read_files_nonempty [OF rf] dd obtain y ys where "get_decode_ds dt = y # ys"
    by (cases files) auto
  then show "\<exists>e. ds_iterate (get_ds dt) = Inl e"
    using assms by (cases y) (simp_all add: gd ds_map_def ds_iterate_def process_image_nonpositive)
qed

theorem dataset_nonpositive_target_witness:
  "dataset_init example_env example_fs \<lparr>global_seed = None, op_count = 0\<rparr> ''data/Test'' ''png'' (-1) 1 False (1, 0) =
     (Inr (example_ds\<lparr>target_shape := (1, 0),
        ds := [Inl (InvalidArgumentError ''output dimensions must be positive''),
               Inl (InvalidArgumentError ''output dimensions must be positive'')]\<rparr>),
      \<lparr>global_seed = Some 1, op_count = 1\<rparr>) \<and>
   (\<exists>e. ds_iterate (get_ds (example_ds\<lparr>target_shape := (1, 0),
        ds := [Inl (InvalidArgumentError ''output dimensions must be positive''),
               Inl (InvalidArgumentError ''output dimensions must be positive'')]\<rparr>)) = Inl e)"
proof -
  note t = dataset_nonpositive_target [of 1 0 example_env example_fs "\<lparr>global_seed = None, op_count = 0\<rparr>"
      "''data/Test''" "''png''" "-1" 1 False]
  have eq: "dataset_init example_env example_fs \<lparr>global_seed = None, op_count = 0\<rparr> ''data/Test'' ''png'' (-1) 1 False (1, 0) =
     (Inr (example_ds\<lparr>target_shape := (1, 0),
        ds := [Inl (InvalidArgumentError ''output dimensions must be positive''),
               Inl (InvalidArgumentError ''output dimensions must be positive'')]\<rparr>),
      \<lparr>global_seed = Some 1, op_count = 1\<rparr>)"
    using conjunct1 [OF t] example_dataset [of "\<lparr>global_seed = None, op_count = 0\<rparr>"]
    by (simp add: example_ds_def get_decode_ds_def)
  moreover have "\<exists>e. ds_iterate (get_ds (example_ds\<lparr>target_shape := (1, 0),
        ds := [Inl (InvalidArgumentError ''output dimensions must be positive''),
               Inl (InvalidArgumentError ''output dimensions must be positive'')]\<rparr>)) = Inl e"
    using conjunct2 [OF t] eq by simp
  ultimately show ?thesis by blast
qed

lemma codec_of_ext_fallback:
  "codec_of_ext cs ext = (if ext = ''jpg'' \<or> ext = ''jpeg'' then decode_jpeg cs else decode_png cs)"
  by (auto simp: codec_of_ext_def)

text \<open>C9. The codec follows the dataset's extension parameter: a dataset built
  with extension \<open>ext\<close> decodes every globbed file, each once, with
  \<open>decode_jpeg\<close> when \<open>ext\<close> is \<open>jpg\<close> or \<open>jpeg\<close> and with \<open>decode_png\<close> for every
  other extension (\<open>bmp\<close> included, spec section 8), whatever the dots in the
  directory names, and labels it with its parent directory.\<close>

theorem dataset_decode_by_extension:
  assumes wf: "fs_wf f" and pat: "glob_literal path" "path \<noteq> []" "last path \<noteq> CHR ''/''"
    "glob_literal ext" "CHR ''/'' \<notin> set ext" "CHR ''.'' \<notin> set ext"
    and d: "dataset_init env f r path ext npc seed tr target = (Inr dt, r')"
  shows "\<exists>files. mset files = mset (gfile_glob f (path_join path (''**/*.'' @ ext))) \<and>
     get_decode_ds dt = map (\<lambda>p. res_bind (read_file f p) (\<lambda>b.
        res_bind ((if ext = ''jpg'' \<or> ext = ''jpeg'' then decode_jpeg else decode_png) (env_codecs env) b)
          (\<lambda>img. Inr (img, one_hot_eq (basename (dirname p)) (labels dt))))) files"
proof -
  obtain names files where ln: "gfile_listdir f path = Inr names"
    and rf: "read_files env f path ext (0 < seed) (if 0 < seed then set_seed seed r else r) = (StringVec files, r')"
    and lb: "labels dt = sort names"
    and dd: "get_decode_ds dt = map (\<lambda>p. decode_image (env_codecs env) f p (sort names)) files"
    by (rule dataset_init_Inr [OF d])
  have ms: "mset files = mset (gfile_glob f (path_join path (''**/*.'' @ ext)))"
    using read_files_perm [OF rf] by blast
  have "decode_image (env_codecs env) f p (sort names) =
        res_bind (read_file f p) (\<lambda>b.
          res_bind ((if ext = ''jpg'' \<or> ext = ''jpeg'' then decode_jpeg else decode_png) (env_codecs env) b)
            (\<lambda>img. Inr (img, one_hot_eq (basename (dirname p)) (labels dt))))"
    if "p \<in> set files" for p
  proof -
    from that ms have "p \<in> set (gfile_glob f (path_join path (''**/*.'' @ ext)))"
      by (metis mset_eq_setD)
    from dataset_glob_label [OF wf pat ln this, of "env_codecs env"] show ?thesis
      by (simp add: lb codec_of_ext_fallback cong: if_cong)
  qed
  with dd ms show ?thesis by auto
qed

theorem dataset_decode_by_extension_witness:
  "\<exists>files. mset files = mset (gfile_glob example_fs (path_join ''data/Test'' (''**/*.'' @ ''png''))) \<and>
     get_decode_ds example_ds = map (\<lambda>p. res_bind (read_file example_fs p) (\<lambda>b.
        res_bind ((if ''png'' = ''jpg'' \<or> ''png'' = ''jpeg'' then decode_jpeg else decode_png) (env_codecs example_env) b)
          (\<lambda>img. Inr (img, one_hot_eq (basename (dirname p)) (labels example_ds))))) files"
  by (rule dataset_decode_by_extension [OF example_fs_wf example_pattern example_dataset [of undefined]])

end
