(* ===== verification/DatasetDemo.thy ===== *)
theory DatasetDemo
  imports Dataset
begin

text \<open>
  The \<open>__main__\<close> block of \<open>src/utils/dataset.py\<close> (lines 90-99): it builds a
  training \<open>Dataset\<close> of \<open>../data/Train\<close> and a test one of \<open>../data/Test\<close>
  (both PNG, \<open>AUTOTUNE\<close>, the default seed 1, target 224 x 224), then prints
  \<open>np.min\<close> and \<open>np.max\<close> of the first ten training samples. The run is
  \<open>demo_script\<close> over the target size, and \<open>dataset_main\<close> with the
  source's 224 x 224; it returns the printed values in order, the exception
  that ended the run if any, and the random state. numpy's \<open>min\<close> and
  \<open>max\<close> reduce over all entries and raise \<open>ValueError\<close> on an empty array.
  The loop \<open>print_min_max\<close> fetches a sample (raising its error), prints its
  minimum, then its maximum, and goes on.
\<close>

definition np_min :: "real image \<Rightarrow> real res" where
  "np_min im =
     (case concat (concat im) of
        [] \<Rightarrow> Inl (ValueError ''zero-size array to reduction operation minimum which has no identity'')
      | v # vs \<Rightarrow> Inr (fold min vs v))"

definition np_max :: "real image \<Rightarrow> real res" where
  "np_max im =
     (case concat (concat im) of
        [] \<Rightarrow> Inl (ValueError ''zero-size array to reduction operation maximum which has no identity'')
      | v # vs \<Rightarrow> Inr (fold max vs v))"

fun print_min_max :: "sample tfds \<Rightarrow> real list \<times> error option" where
  "print_min_max [] = ([], None)"
| "print_min_max (Inl e # _) = ([], Some e)"
| "print_min_max (Inr (im, l) # rest) =
     (case np_min im of
        Inl e \<Rightarrow> ([], Some e)
      | Inr a \<Rightarrow>
          (case np_max im of
             Inl e \<Rightarrow> ([a], Some e)
           | Inr b \<Rightarrow> (case print_min_max rest of (out, err) \<Rightarrow> (a # b # out, err))))"

definition demo_script ::
  "int \<times> int \<Rightarrow> tf_env \<Rightarrow> fs \<Rightarrow> tf_random \<Rightarrow> real list \<times> error option \<times> tf_random" where
  "demo_script target env f r =
     (case dataset_init env f r ''../data/Train'' ''png'' AUTOTUNE 1 True target of
        (Inl e, r1) \<Rightarrow> ([], Some e, r1)
      | (Inr dataset_train, r1) \<Rightarrow>
          (let train_ds = get_ds dataset_train in
           case dataset_init env f r1 ''../data/Test'' ''png'' AUTOTUNE 1 False target of
             (Inl e, r2) \<Rightarrow> ([], Some e, r2)
           | (Inr dataset_test, r2) \<Rightarrow>
               (let test_ds = get_ds dataset_test in
                case print_min_max (ds_take 10 train_ds) of (out, err) \<Rightarrow> (out, err, r2))))"

definition dataset_main :: "tf_env \<Rightarrow> fs \<Rightarrow> tf_random \<Rightarrow> real list \<times> error option \<times> tf_random" where
  "dataset_main = demo_script (224, 224)"

definition demo_fs :: fs where
  "demo_fs = \<lparr>fs_entries = [(''..'', Dir), (''../data'', Dir), (''../data/Train'', Dir),
     (''../data/Train/cat'', Dir), (''../data/Train/cat/a.png'', File [1]),
     (''../data/Test'', Dir), (''../data/Test/cat'', Dir), (''../data/Test/cat/b.png'', File [2])]\<rparr>"

definition demo_fs_no_test :: fs where
  "demo_fs_no_test = \<lparr>fs_entries = [(''..'', Dir), (''../data'', Dir), (''../data/Train'', Dir),
     (''../data/Train/cat'', Dir), (''../data/Train/cat/a.png'', File [1])]\<rparr>"

subsection \<open>Helper lemmas\<close>

lemma img_values_Cons:
  assumes "img_values im \<noteq> {}"
  obtains v vs where "concat (concat im) = v # vs" "img_values im = set (v # vs)"
  using assms by (cases "concat (concat im)") (simp_all add: img_values_def)

lemma np_min_Min: "img_values im \<noteq> {} \<Longrightarrow> np_min im = Inr (Min (img_values im))"
proof -
  assume "img_values im \<noteq> {}"
  then obtain v vs where c: "concat (concat im) = v # vs" and s: "img_values im = set (v # vs)"
    by (rule img_values_Cons)
  show ?thesis unfolding np_min_def c s by (simp only: Min.set_eq_fold sum.case list.case)
qed

lemma np_max_Max: "img_values im \<noteq> {} \<Longrightarrow> np_max im = Inr (Max (img_values im))"
proof -
  assume "img_values im \<noteq> {}"
  then obtain v vs where c: "concat (concat im) = v # vs" and s: "img_values im = set (v # vs)"
    by (rule img_values_Cons)
  show ?thesis unfolding np_max_def c s by (simp only: Max.set_eq_fold sum.case list.case)
qed

lemma np_min_empty: "img_values im = {} \<Longrightarrow> \<exists>msg. np_min im = Inl (ValueError msg)"
proof -
  assume "img_values im = {}"
  then have c: "concat (concat im) = []" by (simp only: img_values_def set_empty)
  show ?thesis unfolding np_min_def c by simp
qed

lemma finite_img_values [simp]: "finite (img_values im)"
  by (simp add: img_values_def)

lemma Min_Max_img_values:
  "img_values im \<noteq> {} \<Longrightarrow> Min (img_values im) \<in> img_values im \<and> Max (img_values im) \<in> img_values im"
  using Min_in Max_in finite_img_values by blast

lemma print_min_max_values:
  "print_min_max xs = (out, err) \<Longrightarrow> v \<in> set out \<Longrightarrow>
   \<exists>im l. Inr (im, l) \<in> set xs \<and> v \<in> img_values im"
proof (induction xs arbitrary: out err rule: print_min_max.induct)
  case (3 im l rest)
  have ne: "img_values im \<noteq> {}"
    using "3.prems" np_min_empty by (force split: sum.splits)
  then have mm: "Min (img_values im) \<in> img_values im" "Max (img_values im) \<in> img_values im"
    using Min_Max_img_values by blast+
  obtain out' err' where rest: "print_min_max rest = (out', err')" by fastforce
  from "3.prems" ne rest have out: "out = Min (img_values im) # Max (img_values im) # out'" "err = err'"
    by (simp_all add: np_min_Min np_max_Max)
  show ?case
  proof (cases "v \<in> set out'")
    case True
    then obtain im' l' where "Inr (im', l') \<in> set rest" "v \<in> img_values im'"
      using "3.IH" [OF np_min_Min [OF ne] np_max_Max [OF ne] rest] by blast
    then show ?thesis by auto
  next
    case False
    with "3.prems"(2) out have "v \<in> img_values im" using mm by auto
    then show ?thesis by auto
  qed
qed auto

lemma print_min_max_length: "length (fst (print_min_max xs)) \<le> 2 * length xs"
  by (induction xs rule: print_min_max.induct) (auto split: sum.split prod.split)

lemma demo_script_out:
  assumes "demo_script target env f r = (out, err, r')"
  shows "out = [] \<or> (\<exists>dt r1. dataset_init env f r ''../data/Train'' ''png'' (-1) 1 True target = (Inr dt, r1) \<and>
           out = fst (print_min_max (ds_take 10 (get_ds dt))))"
  using assms
  by (auto simp: demo_script_def AUTOTUNE_def Let_def split: prod.splits sum.splits)

lemma demo_fs_wf: "fs_wf demo_fs"
  by (simp add: fs_wf_def demo_fs_def fs_lookup_def dirname_def)

lemma demo_example:
  "demo_script (1, 1) example_env demo_fs \<lparr>global_seed = None, op_count = 0\<rparr> =
   ([0, 1], None, \<lparr>global_seed = Some 1, op_count = 1\<rparr>)"
  by (simp add: demo_script_def dataset_init_def demo_fs_def example_simps AUTOTUNE_def get_ds_def
      ds_take_def np_min_def np_max_def)


subsection \<open>Properties of the demo\<close>

text \<open>C33. Everything the \<open>__main__\<close> demo of \<open>dataset.py\<close> prints lies in [0, 1]: the
  minimum and maximum of training samples, which \<open>process_image\<close> normalises,
  given decoders that return 3-channel images and a \<open>train_transforms\<close> that
  keeps values in [0, 255].\<close>

theorem demo_prints_unit_range:
  assumes wf: "fs_wf f" and codec: "codec_ok (decode_png (env_codecs env))"
    and tt: "\<forall>x. (\<forall>v \<in> img_values x. 0 \<le> v \<and> v \<le> 255) \<longrightarrow>
               (\<forall>v \<in> img_values (train_transforms env x). 0 \<le> v \<and> v \<le> 255)"
    and run: "demo_script (th, tw) env f r = (out, err, r')" and v: "v \<in> set out"
  shows "0 \<le> v \<and> v \<le> 1"
proof -
  from v have "out \<noteq> []" by auto
  with demo_script_out [OF run] obtain dt r1 where
    d: "dataset_init env f r ''../data/Train'' ''png'' (-1) 1 True (th, tw) = (Inr dt, r1)"
    and o: "out = fst (print_min_max (ds_take 10 (get_ds dt)))"
    by blast
  obtain err' where "print_min_max (ds_take 10 (get_ds dt)) = (out, err')"
    using o by (metis prod.collapse)
  from print_min_max_values [OF this v] obtain im l where
    x: "Inr (im, l) \<in> set (ds_take 10 (get_ds dt))" and vi: "v \<in> img_values im"
    by blast
  have pat: "glob_literal ''../data/Train''" "''../data/Train'' \<noteq> []" "last ''../data/Train'' \<noteq> CHR ''/''"
    by (simp_all add: glob_literal_def)
  from x set_ds_take have "Inr (im, l) \<in> set (get_ds dt)" by blast
  from dataset_png_sample_origin [OF wf pat d this] obtain q b im0 where
    dec: "decode_png (env_codecs env) b = Inr im0"
    and p: "process_image (train_transforms env) (im0, one_hot_eq (basename (dirname q)) (labels dt)) (th, tw) True = Inr (im, l)"
    by blast
  from codec dec obtain h w where sh: "0 < h" "0 < w" "img_shape h w 3 im0"
    unfolding codec_ok_def by blast
  have "\<forall>v \<in> img_values im. 0 \<le> v \<and> v \<le> 1"
    using process_image_values [OF sh(3) sh(1,2) _ p] tt by blast
  with vi show ?thesis by blast
qed

theorem demo_prints_unit_range_witness: "0 \<le> (0::real) \<and> (0::real) \<le> 1"
  by (rule demo_prints_unit_range [OF demo_fs_wf example_codec_ok _ demo_example])
    (simp_all add: example_env_def)

text \<open>C34. The demo prints at most 20 values: \<open>take(10)\<close> bounds its loop to ten
  samples and each iteration prints two values.\<close>

theorem dataset_main_prints_at_most_20: "length (fst (dataset_main env f r)) \<le> 20"
proof -
  obtain out err r' where run: "dataset_main env f r = (out, err, r')" by (metis prod.collapse)
  have "length out \<le> 20"
  proof (cases "out = []")
    case False
    with demo_script_out [OF run [unfolded dataset_main_def]] obtain dt r1 where
      o: "out = fst (print_min_max (ds_take 10 (get_ds dt)))" by blast
    have "length (ds_take 10 (get_ds dt)) \<le> 10" using length_ds_take [of 10] by simp
    with o print_min_max_length [of "ds_take 10 (get_ds dt)"] show ?thesis by simp
  qed simp
  with run show ?thesis by simp
qed

text \<open>C35. The printing loop runs in order and stops at the first sample that
  fails: it prints the minimum and maximum of every sample before it and then
  raises that sample's error.\<close>

theorem print_min_max_stops_at_error:
  assumes "\<forall>(im, l) \<in> set ys. img_values im \<noteq> {}"
  shows "print_min_max (map Inr ys @ Inl e # rest) =
           (concat (map (\<lambda>(im, l). [Min (img_values im), Max (img_values im)]) ys), Some e)"
  using assms
proof (induction ys)
  case Nil
  then show ?case by simp
next
  case (Cons y ys)
  obtain im l where y: "y = (im, l)" by fastforce
  with Cons.prems have ne: "img_values im \<noteq> {}" by simp
  from Cons.prems have "\<forall>(im, l) \<in> set ys. img_values im \<noteq> {}" by simp
  with Cons.IH y show ?case by (simp add: np_min_Min [OF ne] np_max_Max [OF ne])
qed

theorem print_min_max_stops_at_error_witness:
  "print_min_max [Inr ([[[0, 128 / 255, 1]]], [1, 0]), Inl (NotFoundError ''../data/Train/dog/b.png'')] =
   ([0, 1], Some (NotFoundError ''../data/Train/dog/b.png''))"
  using print_min_max_stops_at_error [of "[([[[0, 128 / 255, 1]]], [1, 0])]" "NotFoundError ''../data/Train/dog/b.png''" "[]"]
  by (simp add: img_values_def)

text \<open>C36. The demo builds both datasets before its loop: when \<open>../data/Test\<close> is
  missing it prints nothing and raises the training set's error, if any, or else
  \<open>NotFoundError\<close> for the test root.\<close>

theorem demo_missing_test_root:
  assumes "fs_lookup f ''../data/Test'' = None"
  shows "fst (demo_script target env f r) = [] \<and>
    fst (snd (demo_script target env f r)) =
      Some (case fst (dataset_init env f r ''../data/Train'' ''png'' (-1) 1 True target) of
              Inl e \<Rightarrow> e | Inr _ \<Rightarrow> NotFoundError ''../data/Test'')"
  using assms
  by (auto simp: demo_script_def AUTOTUNE_def Let_def dataset_init_def [of _ _ _ "''../data/Test''"]
      gfile_listdir_def split: prod.split sum.split)

theorem demo_missing_test_root_witness:
  "fst (demo_script (1, 1) example_env demo_fs_no_test \<lparr>global_seed = None, op_count = 0\<rparr>) = [] \<and>
   fst (snd (demo_script (1, 1) example_env demo_fs_no_test \<lparr>global_seed = None, op_count = 0\<rparr>)) =
     Some (NotFoundError ''../data/Test'')"
  using demo_missing_test_root [of demo_fs_no_test "(1, 1)" example_env "\<lparr>global_seed = None, op_count = 0\<rparr>"]
  by (simp add: dataset_init_def demo_fs_no_test_def example_simps)

end
