(* ===== verification/Evaluation.thy ===== *)
theory Evaluation
  imports Dataset
begin

text \<open>
  The evaluation script \<open>src/evaluation.py\<close>, run once from top to bottom: it
  builds the test dataset of \<open>data/Test\<close> (PNG files, \<open>AUTOTUNE\<close> parallel calls,
  evaluation mode, the default \<open>random_seed=1\<close>, target shape the first two
  entries of \<open>input_shape\<close>), caches, batches by \<open>batch_size\<close> and prefetches
  it, and loads the saved Keras model. \<open>evaluation\<close> returns the script's
  module state (the record \<open>eval_state\<close>) or the first exception, together
  with TensorFlow's random state after it. Keras' \<open>load_model\<close> is modelled from
  its documentation: it reads the file at the path, relative paths against the
  working directory (the root of \<open>fs\<close>), and raises \<open>OSError\<close> when there is
  none; the HDF5 deserialisation is the parameter \<open>deserialize\<close>.
\<close>

definition input_shape :: "int \<times> int \<times> int" where
  "input_shape = (224, 224, 3)"

definition batch_size :: int where
  "batch_size = 128"

definition model_path :: string where
  "model_path = ''./saved_models/TSL_MobileNetV2.h5''"

definition rel_path :: "string \<Rightarrow> string" where
  "rel_path p = (if take 2 p = ''./'' then drop 2 p else p)"

definition load_model :: "(8 word list \<Rightarrow> 'm res) \<Rightarrow> fs \<Rightarrow> string \<Rightarrow> 'm res" where
  "load_model deserialize f p =
     (case fs_lookup f (rel_path p) of
        Some (File bs) \<Rightarrow> deserialize bs
      | _ \<Rightarrow> Inl (OSError (''No file or directory found at '' @ p)))"

record 'm eval_state =
  dataset_test :: dataset
  test_ds :: "sample list tfds"
  eval_model :: 'm

text \<open>
  The script's statements, with its module constants \<open>input_shape\<close>,
  \<open>batch_size\<close> and the model path as parameters; \<open>evaluation\<close> is the script
  itself.
\<close>

definition evaluation_script ::
  "int \<times> int \<times> int \<Rightarrow> int \<Rightarrow> string \<Rightarrow> (8 word list \<Rightarrow> 'm res) \<Rightarrow> tf_env \<Rightarrow> fs \<Rightarrow> tf_random \<Rightarrow>
   'm eval_state res \<times> tf_random" where
  "evaluation_script shape bsz mpath deserialize env f r =
     (case dataset_init env f r ''data/Test'' ''png'' AUTOTUNE 1 False (fst shape, fst (snd shape)) of
        (dres, r1) \<Rightarrow>
          (res_bind dres (\<lambda>dt.
           res_bind (ds_batch bsz (ds_cache (get_ds dt))) (\<lambda>batched.
           res_bind (ds_prefetch AUTOTUNE batched) (\<lambda>tds.
           res_bind (load_model deserialize f mpath) (\<lambda>m.
             Inr \<lparr>dataset_test = dt, test_ds = tds, eval_model = m\<rparr>)))), r1))"

definition evaluation ::
  "(8 word list \<Rightarrow> 'm res) \<Rightarrow> tf_env \<Rightarrow> fs \<Rightarrow> tf_random \<Rightarrow> 'm eval_state res \<times> tf_random" where
  "evaluation = evaluation_script input_shape batch_size model_path"

text \<open>A model file deserialiser for the examples: it refuses an empty file.\<close>

definition example_model :: "8 word list \<Rightarrow> unit res" where
  "example_model bs = (if bs = [] then Inl (ValueError ''empty model file'') else Inr ())"

subsection \<open>Helper lemmas\<close>

lemma evaluation_script_Inr:
  assumes "evaluation_script (th, tw, ch) bsz mpath deserialize env f r = (Inr ev, r')"
  shows "dataset_init env f r ''data/Test'' ''png'' (-1) 1 False (th, tw) = (Inr (dataset_test ev), r') \<and>
         0 < bsz \<and> test_ds ev = map res_list (chunks (nat bsz) (get_ds (dataset_test ev))) \<and>
         load_model deserialize f mpath = Inr (eval_model ev)"
  using assms
  by (auto simp: evaluation_script_def AUTOTUNE_def ds_batch_def ds_cache_def ds_prefetch_def
      split: prod.splits if_splits)

lemma evaluation_unfold:
  "evaluation deserialize env f r =
     (case dataset_init env f r ''data/Test'' ''png'' (-1) 1 False (224, 224) of
        (dres, r1) \<Rightarrow>
          (res_bind dres (\<lambda>dt. res_bind (load_model deserialize f model_path) (\<lambda>m.
             Inr \<lparr>dataset_test = dt, test_ds = map res_list (chunks 128 (get_ds dt)), eval_model = m\<rparr>)), r1))"
  by (simp add: evaluation_def evaluation_script_def input_shape_def batch_size_def AUTOTUNE_def
      ds_batch_def ds_cache_def ds_prefetch_def)

lemma example_evaluation:
  "evaluation_script (1, 1, 3) 128 model_path example_model example_env example_fs r =
   (Inr \<lparr>dataset_test = example_ds, test_ds = [Inr [([[[0, 128 / 255, 1]]], [1, 0, 0]), ([[[0, 128 / 255, 1]]], [0, 1, 0])]],
        eval_model = ()\<rparr>, \<lparr>global_seed = Some 1, op_count = 1\<rparr>)"
proof -
  have "dataset_init example_env example_fs r ''data/Test'' ''png'' AUTOTUNE 1 False (1, 1) =
   (Inr example_ds, \<lparr>global_seed = Some 1, op_count = 1\<rparr>)"
    using example_dataset by (simp add: AUTOTUNE_def)
  then show ?thesis
    by (simp add: evaluation_script_def ds_batch_def ds_cache_def ds_prefetch_def AUTOTUNE_def
        load_model_def model_path_def rel_path_def example_model_def example_fs_def fs_lookup_def
        get_ds_def example_ds_def chunks.simps)
qed

subsection \<open>Properties of the evaluation script\<close>

text \<open>C14. Batching commutes with iteration: iterating \<open>test_ds\<close> gives the samples of
  the dataset, in order, cut into consecutive batches of \<open>batch_size\<close>, only the
  last one possibly shorter, or the first error of a sample.\<close>

theorem evaluation_batches:
  assumes "evaluation_script (th, tw, ch) bsz mpath deserialize env f r = (Inr ev, r')"
  shows "ds_iterate (test_ds ev) = map_sum id (chunks (nat bsz)) (ds_iterate (get_ds (dataset_test ev))) \<and>
    (\<forall>xs. ds_iterate (get_ds (dataset_test ev)) = Inr xs \<longrightarrow>
       (\<exists>bs. ds_iterate (test_ds ev) = Inr bs \<and> concat bs = xs \<and>
          (\<forall>i < length bs. 0 < length (bs ! i) \<and> length (bs ! i) \<le> nat bsz \<and>
             (i + 1 < length bs \<longrightarrow> length (bs ! i) = nat bsz))))"
proof -
  from evaluation_script_Inr [OF assms] have pos: "0 < bsz"
    and t: "test_ds ev = map res_list (chunks (nat bsz) (get_ds (dataset_test ev)))"
    by blast+
  have it: "ds_iterate (test_ds ev) = map_sum id (chunks (nat bsz)) (ds_iterate (get_ds (dataset_test ev)))"
    using pos by (simp add: t ds_iterate_def res_list_chunks)
  moreover have "\<forall>i < length (chunks (nat bsz) xs). 0 < length (chunks (nat bsz) xs ! i) \<and>
      length (chunks (nat bsz) xs ! i) \<le> nat bsz \<and>
      (i + 1 < length (chunks (nat bsz) xs) \<longrightarrow> length (chunks (nat bsz) xs ! i) = nat bsz)" for xs :: "sample list"
    using chunks_length_bound chunks_full nth_mem by blast
  ultimately show ?thesis using pos by (auto simp: concat_chunks)
qed

theorem evaluation_batches_witness:
  "ds_iterate [Inr [([[[0, 128 / 255, 1]]], [1, 0, 0]), ([[[0, 128 / 255, 1 :: real]]], [0, 1, 0 :: real])]] = map_sum id (chunks (nat 128)) (ds_iterate (get_ds example_ds)) \<and>
   (\<exists>bs. ds_iterate [Inr [([[[0, 128 / 255, 1]]], [1, 0, 0]), ([[[0, 128 / 255, 1 :: real]]], [0, 1, 0 :: real])]] = Inr bs \<and> concat bs = [([[[0, 128 / 255, 1]]], [1, 0, 0]), ([[[0, 128 / 255, 1 :: real]]], [0, 1, 0 :: real])] \<and>
      (\<forall>i < length bs. 0 < length (bs ! i) \<and> length (bs ! i) \<le> nat 128 \<and>
         (i + 1 < length bs \<longrightarrow> length (bs ! i) = nat 128)))"
proof -
  note b = evaluation_batches [OF example_evaluation [of "\<lparr>global_seed = None, op_count = 0\<rparr>"],
      unfolded eval_state.select_convs]
  have "ds_iterate (get_ds example_ds) = Inr [([[[0, 128 / 255, 1]]], [1, 0, 0]), ([[[0, 128 / 255, 1 :: real]]], [0, 1, 0 :: real])]"
    by (simp add: ds_iterate_def get_ds_def example_ds_def)
  with b show ?thesis by blast
qed

text \<open>C17. The evaluation script is a function of the file system, the codecs and
  the model deserialiser alone: neither TensorFlow's random state before it runs
  (it reseeds with the default seed 1, so the test set is always shuffled in the
  same order) nor the augmentation function \<open>train_transforms\<close> changes its
  result or the random state it leaves.\<close>

theorem evaluation_deterministic:
  "evaluation deserialize (env\<lparr>train_transforms := t1\<rparr>) f r1 =
   evaluation deserialize (env\<lparr>train_transforms := t2\<rparr>) f r2"
proof -
  have "evaluation deserialize (env\<lparr>train_transforms := t1\<rparr>) f r1 =
        evaluation deserialize (env\<lparr>train_transforms := t1\<rparr>) f r2"
    by (simp add: evaluation_unfold dataset_init_def set_seed_const)
  also have "\<dots> = evaluation deserialize (env\<lparr>train_transforms := t2\<rparr>) f r2"
    by (simp add: evaluation_unfold dataset_init_def read_files_transforms map_files_eval_transforms
        split: sum.split)
  finally show ?thesis .
qed

text \<open>C31. Without the saved model file the script raises \<open>OSError\<close> after the
  test set is built, unless building it raised first.\<close>

theorem evaluation_missing_model:
  assumes "fs_lookup f ''saved_models/TSL_MobileNetV2.h5'' = None"
  shows "fst (evaluation deserialize env f r) =
    res_bind (fst (dataset_init env f r ''data/Test'' ''png'' (-1) 1 False (224, 224)))
      (\<lambda>d. Inl (OSError ''No file or directory found at ./saved_models/TSL_MobileNetV2.h5''))"
  using assms
  by (simp add: evaluation_unfold load_model_def model_path_def rel_path_def split: prod.split)

theorem evaluation_missing_model_witness:
  "fst (evaluation example_model corrupt_env
        \<lparr>fs_entries = [(''data/Test'', Dir), (''data/Test/cat'', Dir), (''data/Test/cat/a.png'', File [1])]\<rparr>
        \<lparr>global_seed = None, op_count = 0\<rparr>) =
   Inl (OSError ''No file or directory found at ./saved_models/TSL_MobileNetV2.h5'')"
  by (simp add: evaluation_missing_model fs_lookup_def dataset_init_def corrupt_env_def example_simps)

end
