(* ===== verification/Spec2Isabelle.thy ===== *)
theory Spec2Isabelle
  imports Prelude Backbone Gfile TfRandom TfImage TfData Dataset DatasetSamples DatasetDemo Evaluation
begin

text \<open>
  A verification development for the image-classification harness of this
  repository: \<open>src/models/backbone.py\<close> (the backbone selector),
  \<open>src/utils/dataset.py\<close> (the dataset builder) and \<open>src/evaluation.py\<close> (the
  evaluation script). The program is a thin layer over TensorFlow and Keras, so
  the development models both the repository's code, line by line, and the
  framework services it calls, from their documented behaviour.

  \<^bold>\<open>Parts and how they interact.\<close> The evaluation script builds a test-mode
  \<open>Dataset\<close> of \<open>data/Test\<close>, wraps its processed dataset in
  \<open>cache/batch/prefetch\<close> and loads a saved Keras model; the model is never
  applied to the data. \<open>Dataset.__init__\<close> seeds TensorFlow's global random
  generator, lists the labels with \<open>listdir\<close>, globs the files, optionally
  shuffles them and maps \<open>decode_image\<close> and \<open>process_image\<close> over them,
  lazily. The backbone selector is independent of both.

  \<^bold>\<open>Theories.\<close>
  \<^item> \<open>Prelude\<close>: exceptions as the datatype \<open>error\<close>, results \<open>'a res\<close> with
    \<open>res_bind\<close> (the first raise wins), Python \<open>assert\<close> (\<open>py_assert\<close>, off
    under \<open>python -O\<close>), negative indexing (\<open>py_index\<close>), \<open>str.split\<close>
    (\<open>split_on\<close>), \<open>join\<close>, \<open>lower\<close>.
  \<^item> \<open>Backbone\<close>: class \<open>Backbone\<close> as the record \<open>backbone\<close>, \<open>__init__\<close> as
    \<open>backbone_init\<close>, \<open>import_backbone\<close>, the \<open>backbone\<close> property as
    \<open>backbone_get\<close>; the Keras application constructors by their input-shape
    validation (\<open>obtain_input_shape\<close>, MobileNetV3's own size check, and the
    first convolution's need for a defined channel dimension, and the loading
    of MobileNetV3Small's ImageNet weights, which needs three channels).
    \<open>backbone_spec\<close> is the contract of the spec; the refinement lemma shows
    the class implements it when assertions are on, and what \<open>python -O\<close>
    changes. \<open>backbone_main\<close> is the module's \<open>__main__\<close> block. Further lemmas: the
    trainable flag, and the Keras \<open>ValueError\<close> for inputs below 32x32 that
    the asserts let through.
  \<^item> \<open>Gfile\<close>: a file system as a list of entries; \<open>os.path.join\<close>,
    \<open>tf.io.gfile.listdir\<close>, \<open>tf.io.gfile.glob\<close> (POSIX \<open>fnmatch\<close> with
    \<open>FNM_PATHNAME\<close>) and \<open>tf.io.read_file\<close>; the decomposition of what the
    dataset's pattern \<open>root/**/*.ext\<close> matches. Paths are compared as
    strings; \<open>canonical_path\<close> (the \<open>posixpath.normpath\<close> form) characterises
    the paths for which that agrees with the file system, which resolves
    \<open>data/Test/\<close> and \<open>./data/Test\<close> to \<open>data/Test\<close>.
  \<^item> \<open>TfRandom\<close>: the global random state (\<open>tf.random.set_seed\<close>, operation
    seeds) and \<open>tf.random.shuffle\<close> as \<open>RandomShuffleOp\<close>'s Fisher-Yates loop over
    a generator given as a parameter; it is a permutation for every generator.
  \<^item> \<open>TfImage\<close>: images as nested lists, \<open>tf.image.resize\<close> as bilinear
    interpolation with half-pixel centres, with the kernel's checks (positive
    output size, non-empty input, at least one channel); its output has the
    target shape and stays within the input's value bounds.
  \<^item> \<open>TfData\<close>: a \<open>tf.data.Dataset\<close> as the list of its elements' results;
    \<open>from_tensor_slices\<close>, \<open>map\<close> (with \<open>num_parallel_calls\<close>, checked to be
    positive or \<open>AUTOTUNE\<close> by the parallel map, \<open>ds_map_parallel\<close>),
    \<open>cache\<close>, \<open>batch\<close>, \<open>prefetch\<close> and
    iteration, with the lemma that iterating a batched dataset is iterating it
    and cutting the result into chunks.
  \<^item> \<open>Dataset\<close>: the functions and the class of \<open>src/utils/dataset.py\<close>, one
    definition each (\<open>decode_image\<close>, \<open>process_image\<close>, \<open>aug_fn\<close>,
    \<open>aug_process\<close>, \<open>dataset_init\<close>, \<open>read_files\<close>, \<open>map_files\<close>, \<open>get_ds\<close>,
    \<open>get_decode_ds\<close>). The constructor returns the object or the exception,
    with the random state after it. Its lemmas: labels sorted and distinct,
    each globbed file read once, the one-hot labels, the range and shape of
    processed images, determinism with a positive seed, the order without a
    seed, evaluation mode ignoring the augmentation, and the error paths
    (missing root, empty glob, invalid \<open>num_parallel_calls\<close>).
  \<^item> \<open>DatasetSamples\<close>: properties of the samples over the whole
    construction: their typing (equal image and label shapes, so that
    \<open>batch\<close> can stack them) and the round trip of the label from the file's
    directory through its one-hot vector and back; the codec chosen by the
    dataset's extension parameter, with the PNG fallback; and the boundary of a target
    size with a side \<open><= 0\<close>, which the constructor accepts and every
    sample then fails with \<open>InvalidArgumentError\<close>.
  \<^item> \<open>DatasetDemo\<close>: the \<open>__main__\<close> block of \<open>dataset.py\<close> as
    \<open>dataset_main\<close>, which builds both datasets and runs the loop
    \<open>print_min_max\<close> over \<open>take(10)\<close>. Its result is the printed values
    in order and the exception that ended the run; \<open>np.min\<close> and
    \<open>np.max\<close> raise \<open>ValueError\<close> on empty arrays. Its lemmas: the
    printed values lie in [0, 1], there are at most 20 of them, the loop stops
    at the first failing sample, and a missing test root stops the run before
    anything is printed.
  \<^item> \<open>Evaluation\<close>: \<open>src/evaluation.py\<close> as \<open>evaluation_script\<close> over its module
    constants, and \<open>evaluation\<close>, the script with the constants of the source;
    Keras' \<open>load_model\<close> as a file read followed by a deserialiser given as a
    parameter. Its lemmas: batching, independence of the random state and of
    the augmentation, and the missing-model error.
  \<^item> This theory: the end-to-end property, that every sample the evaluation
    pipeline yields is a normalised image of the target shape with a one-hot
    label, in batches of at most \<open>batch_size\<close>.

  \<^bold>\<open>Assumptions.\<close> The PNG decoder is a parameter; the end-to-end lemma
  assumes (\<open>codec_ok\<close>) that it returns 3-channel images of positive size, as
  \<open>decode_png(channels=3)\<close> does. The file system is well formed (\<open>fs_wf\<close>:
  distinct paths, every nested entry's parent a directory), and is the same at
  construction and at iteration; where a lemma concludes that a path is
  missing, it assumes the path and the entries canonical. The augmentation function \<open>train_transforms\<close>
  comes from \<open>utils/augmentation.py\<close>, which is not in the sources, so it is an
  arbitrary function; augmentations that draw random numbers (outside
  TensorFlow's random state) are covered by fixing that function for a run.
  Training-mode lemmas assume it keeps the value range, or
  the shape. Float32 arithmetic is modelled by reals, so rounding is not
  modelled. The random generator (Philox) and the operating system's entropy are
  parameters. No loop of the program can run forever: every recursion is
  structural or has a measure, so no fuel is needed.

  \<^bold>\<open>Not modelled.\<close> Network weights and their download, the HDF5 format of
  the saved model, the text formatting of \<open>print\<close> (the demo's output is the
  list of printed values), the thread pool behind \<open>num_parallel_calls\<close> (with \<open>deterministic=True\<close>,
  tf.data's default, it does not change the order of elements), and
  \<open>fnmatch\<close> bracket expressions, which the program's patterns do not use.
  Of Keras, weights given as a path to a file (possible only under
  \<open>python -O\<close>) and negative channel counts. Symbolic links and the
  resolution of \<open>..\<close> against the working directory are not modelled: paths
  are compared in canonical form. The module
  \<open>utils/augmentation.py\<close> is not in the sources, so \<open>train_transforms\<close> stays
  a parameter. Every statement of the three source files other than the
  imports has a definition here, so the program itself leaves nothing further
  to model; what remains unmodelled is framework code.

  \<^bold>\<open>Findings.\<close> The glob \<open>root/**/*.ext\<close> is not recursive. \<open>listdir\<close>
  makes regular files under the root into labels. An empty file list raises
  \<open>TypeError\<close> at construction. A missing root raises at construction, after
  the global seed has been reset. The extension test is case-sensitive. Under
  \<open>python -O\<close> an unknown backbone name yields a \<open>None\<close> model. The evaluation
  script shuffles its test set with the default seed 1. The demo of
  \<open>dataset.py\<close> reads \<open>../data\<close> where \<open>evaluation.py\<close> reads \<open>data\<close>. A target size
  with a side \<open><= 0\<close> is not rejected at construction; the error is raised
  only when the dataset is iterated. A valid backbone name with an input below
  32x32 passes the asserts and then fails with Keras' \<open>ValueError\<close>,
  against spec section 8. An invalid \<open>num_parallel_calls\<close> is stored
  unchecked and raises \<open>InvalidArgumentError\<close> from \<open>Dataset.map\<close>.
\<close>

section \<open>Properties across components\<close>

text \<open>C1. End to end: every sample the evaluation script's batches yield is an
  image of the target shape with three channels and values in [0, 1], with a
  one-hot label over the dataset's labels; every batch holds between 1 and
  \<open>batch_size\<close> samples.\<close>

theorem evaluation_samples_wellformed:
  assumes "fs_wf f" "codec_ok (decode_png (env_codecs env))"
    and "evaluation_script (th, tw, ch) bsz mpath deserialize env f r = (Inr ev, r')"
    and "ds_iterate (test_ds ev) = Inr batches" "b \<in> set batches" "(img, lab) \<in> set b"
  shows "img_shape (nat th) (nat tw) 3 img \<and> (\<forall>v \<in> img_values img. 0 \<le> v \<and> v \<le> 1) \<and>
         length lab = length (labels (dataset_test ev)) \<and> sum_list lab = 1 \<and>
         0 < length b \<and> length b \<le> nat bsz"
proof -
  from evaluation_script_Inr [OF assms(3)] have
    d: "dataset_init env f r ''data/Test'' ''png'' (-1) 1 False (th, tw) = (Inr (dataset_test ev), r')"
    and pos: "0 < bsz"
    and t: "test_ds ev = map res_list (chunks (nat bsz) (get_ds (dataset_test ev)))"
    by blast+
  from assms(4) t pos obtain xs where xs: "res_list (get_ds (dataset_test ev)) = Inr xs"
    and bs: "batches = chunks (nat bsz) xs"
    by (auto simp: ds_iterate_def res_list_chunks)
  from assms(5,6) bs pos have "(img, lab) \<in> set xs"
    using concat_chunks [of "nat bsz" xs] by (metis UN_I set_concat zero_less_nat_eq)
  with xs have "Inr (img, lab) \<in> set (get_ds (dataset_test ev))"
    by (simp add: res_list_Inr_iff)
  then have "img_shape (nat th) (nat tw) 3 img \<and> (\<forall>v \<in> img_values img. 0 \<le> v \<and> v \<le> 1) \<and>
         length lab = length (labels (dataset_test ev)) \<and> sum_list lab = 1"
    using dataset_sample_wellformed [OF assms(1) _ _ _ assms(2) d] by (simp add: glob_literal_def)
  moreover have "0 < length b \<and> length b \<le> nat bsz"
    using assms(5) bs chunks_length_bound by blast
  ultimately show ?thesis by blast
qed

theorem evaluation_samples_wellformed_witness:
  "img_shape (nat 1) (nat 1) 3 [[[0, 128 / 255, 1 :: real]]] \<and>
   0 \<le> (128 / 255 :: real) \<and> (128 / 255 :: real) \<le> 1 \<and>
   length [1, 0, 0 :: real] = length (labels example_ds) \<and> sum_list [1, 0, 0 :: real] = 1 \<and>
   0 < length [([[[0, 128 / 255, 1 :: real]]], [1, 0, 0 :: real]), ([[[0, 128 / 255, 1]]], [0, 1, 0])] \<and>
   length [([[[0, 128 / 255, 1 :: real]]], [1, 0, 0 :: real]), ([[[0, 128 / 255, 1]]], [0, 1, 0])] \<le> nat 128"
  using evaluation_samples_wellformed [OF example_fs_wf example_codec_ok
      example_evaluation [of "\<lparr>global_seed = None, op_count = 0\<rparr>"],
      where batches = "[[([[[0, 128 / 255, 1]]], [1, 0, 0]), ([[[0, 128 / 255, 1]]], [0, 1, 0])]]"
        and b = "[([[[0, 128 / 255, 1]]], [1, 0, 0]), ([[[0, 128 / 255, 1]]], [0, 1, 0])]"
        and img = "[[[0, 128 / 255, 1]]]" and lab = "[1, 0, 0]"]
  by (simp add: ds_iterate_def img_values_def)

end
